theory Spec2Isabelle
  imports Complex_Main "HOL-Library.Char_ord" "HOL-Library.List_Lexorder"
begin

section \<open>Data model\<close>

text \<open>
  The embedding follows \<^verbatim>\<open>_get_parallel_coordinate_plot\<close> of
  \<^verbatim>\<open>optuna/visualization/_parallel_coordinate.py\<close>.

  A parameter value is a Python number or a Python string. Python's \<^verbatim>\<open>int\<close> and
  \<^verbatim>\<open>float\<close> compare with each other exactly (\<^verbatim>\<open>1 == 1.0\<close>, and they are the same
  dictionary key), so both are the constructor \<open>Num\<close> over the reals, as are the
  booleans (\<^verbatim>\<open>True == 1\<close>); finite floats are read as the reals they denote, on
  which comparison, \<^verbatim>\<open>min\<close>, \<^verbatim>\<open>max\<close> and \<^verbatim>\<open>math.ceil\<close> are exact. The functions of
  Python's library that round (\<^verbatim>\<open>math.log10\<close>, \<^verbatim>\<open>math.pow\<close>) or format
  (\<^verbatim>\<open>"{:.3g}".format\<close>) are parameters of the model. \<^verbatim>\<open>None\<close>, \<^verbatim>\<open>nan\<close> and the
  infinities are not values of the model.
  Parameter names are strings ordered as Python orders \<^verbatim>\<open>str\<close>: lexicographically,
  character by character, by code.
\<close>

datatype TrialState = RUNNING | COMPLETE | PRUNED | FAIL | WAITING

datatype StudyDirection = NOT_SET | MINIMIZE | MAXIMIZE

datatype pvalue = Num real | Str string

text \<open>
  A trial: its state, its \<^verbatim>\<open>params\<close> dictionary (an association list, read with
  \<open>map_of\<close>) and its objective value.
\<close>

record FrozenTrial =
  state :: TrialState
  params :: "(string \<times> pvalue) list"
  tvalue :: real

record Study =
  trials :: "FrozenTrial list"
  direction :: StudyDirection

text \<open>The exceptions the function can raise, as values.\<close>

datatype error = ValueError string | TypeError | OverflowError

text \<open>
  One entry of \<^verbatim>\<open>dims\<close>: the keys \<^verbatim>\<open>label\<close>, \<^verbatim>\<open>values\<close>, \<^verbatim>\<open>range\<close> and, on
  log-scaled and categorical axes only, \<^verbatim>\<open>tickvals\<close> and \<^verbatim>\<open>ticktext\<close>.
\<close>

record dim =
  label :: string
  dvalues :: "pvalue list"
  drange :: "pvalue \<times> pvalue"
  tickvals :: "pvalue list option"
  ticktext :: "pvalue list option"

text \<open>
  The \<^verbatim>\<open>go.Parcoords\<close> trace and the \<^verbatim>\<open>go.Figure\<close> that holds it: the fields the
  function sets.
\<close>

record Parcoords =
  dimensions :: "dim list"
  labelangle :: nat
  labelside :: string
  line_color :: "pvalue list"
  line_colorscale :: string
  line_colorbar_title :: string
  line_showscale :: bool
  line_reversescale :: bool

record Figure =
  data :: "Parcoords list"
  layout_title :: string

section \<open>Python built-ins used by the function\<close>

text \<open>
  \<^verbatim>\<open>min\<close> and \<^verbatim>\<open>max\<close> of a list: \<^verbatim>\<open>ValueError\<close> on the empty list, otherwise
  the running minimum (an item replaces the current one when it is strictly smaller,
  respectively strictly greater).
\<close>

definition py_min :: "'a::linorder list \<Rightarrow> error + 'a" where
  "py_min xs =
     (case xs of
        [] \<Rightarrow> Inl (ValueError ''min() arg is an empty sequence'')
      | x # ys \<Rightarrow> Inr (foldl (\<lambda>m y. if y < m then y else m) x ys))"

definition py_max :: "'a::linorder list \<Rightarrow> error + 'a" where
  "py_max xs =
     (case xs of
        [] \<Rightarrow> Inl (ValueError ''max() arg is an empty sequence'')
      | x # ys \<Rightarrow> Inr (foldl (\<lambda>m y. if m < y then y else m) x ys))"

text \<open>
  On raw parameter values the comparison itself can raise: a number and a string are
  not ordered (\<^verbatim>\<open>TypeError\<close>).
\<close>

fun pv_less :: "pvalue \<Rightarrow> pvalue \<Rightarrow> error + bool" where
  "pv_less (Num a) (Num b) = Inr (a < b)"
| "pv_less (Str a) (Str b) = Inr (a < b)"
| "pv_less (Num a) (Str b) = Inl TypeError"
| "pv_less (Str a) (Num b) = Inl TypeError"

fun pv_min_loop :: "pvalue \<Rightarrow> pvalue list \<Rightarrow> error + pvalue" where
  "pv_min_loop m [] = Inr m"
| "pv_min_loop m (y # ys) =
     (case pv_less y m of
        Inl e \<Rightarrow> Inl e
      | Inr b \<Rightarrow> pv_min_loop (if b then y else m) ys)"

fun pv_max_loop :: "pvalue \<Rightarrow> pvalue list \<Rightarrow> error + pvalue" where
  "pv_max_loop m [] = Inr m"
| "pv_max_loop m (y # ys) =
     (case pv_less m y of
        Inl e \<Rightarrow> Inl e
      | Inr b \<Rightarrow> pv_max_loop (if b then y else m) ys)"

definition pv_min :: "pvalue list \<Rightarrow> error + pvalue" where
  "pv_min xs =
     (case xs of
        [] \<Rightarrow> Inl (ValueError ''min() arg is an empty sequence'')
      | x # ys \<Rightarrow> pv_min_loop x ys)"

definition pv_max :: "pvalue list \<Rightarrow> error + pvalue" where
  "pv_max xs =
     (case xs of
        [] \<Rightarrow> Inl (ValueError ''max() arg is an empty sequence'')
      | x # ys \<Rightarrow> pv_max_loop x ys)"

text \<open>
  \<^verbatim>\<open>math.log10\<close>: \<^verbatim>\<open>ValueError\<close> outside the positive numbers, \<^verbatim>\<open>TypeError\<close> on a
  string. On a positive number it returns the float the library computes, which is
  the parameter \<open>math_log10\<close>: the float nearest to the logarithm is not the logarithm
  of the real the argument denotes.
\<close>

fun log10 :: "(real \<Rightarrow> real) \<Rightarrow> pvalue \<Rightarrow> error + real" where
  "log10 math_log10 (Num v) =
     (if 0 < v then Inr (math_log10 v) else Inl (ValueError ''math domain error''))"
| "log10 math_log10 (Str s) = Inl TypeError"

text \<open>A list comprehension whose body can raise: the first exception ends it.\<close>

fun map_err :: "('a \<Rightarrow> error + 'b) \<Rightarrow> 'a list \<Rightarrow> error + 'b list" where
  "map_err f [] = Inr []"
| "map_err f (x # xs) =
     (case f x of
        Inl e \<Rightarrow> Inl e
      | Inr y \<Rightarrow> (case map_err f xs of Inl e \<Rightarrow> Inl e | Inr ys \<Rightarrow> Inr (y # ys)))"

text \<open>\<^verbatim>\<open>list(range(a, b))\<close> on integers.\<close>

definition py_range :: "int \<Rightarrow> int \<Rightarrow> int list" where
  "py_range a b = [a..b - 1]"

section \<open>The function\<close>

text \<open>Line 98: the completed trials, in the study's order.\<close>

definition complete_trials :: "Study \<Rightarrow> FrozenTrial list" where
  "complete_trials study = filter (\<lambda>trial. state trial = COMPLETE) (trials study)"

text \<open>Line 104: the set of every parameter name of every completed trial.\<close>

definition union_params :: "FrozenTrial list \<Rightarrow> string set" where
  "union_params ts = set (concat (map (\<lambda>t. map fst (params t)) ts))"

text \<open>Lines 105 to 109: the requested names are checked in order; the first unknown one raises.\<close>

definition unknown_param :: "string \<Rightarrow> error" where
  "unknown_param input_p_name =
     ValueError (''Parameter '' @ input_p_name @ '' does not exist in your study.'')"

fun check_params :: "string set \<Rightarrow> string list \<Rightarrow> error + unit" where
  "check_params all_params [] = Inr ()"
| "check_params all_params (input_p_name # ps) =
     (if input_p_name \<notin> all_params then Inl (unknown_param input_p_name)
      else check_params all_params ps)"

definition select_params :: "FrozenTrial list \<Rightarrow> string list option \<Rightarrow> error + string set" where
  "select_params ts ps =
     (let all_params = union_params ts in
      case ps of
        None \<Rightarrow> Inr all_params
      | Some l \<Rightarrow>
          (case check_params all_params l of
             Inl e \<Rightarrow> Inl e
           | Inr u \<Rightarrow> Inr (set l)))"

text \<open>Lines 112 to 120: the target function and the \<^verbatim>\<open>reversescale\<close> flag.\<close>

definition target_of :: "(FrozenTrial \<Rightarrow> real) option \<Rightarrow> FrozenTrial \<Rightarrow> real" where
  "target_of target = (case target of None \<Rightarrow> tvalue | Some f \<Rightarrow> f)"

definition reversescale_of :: "Study \<Rightarrow> (FrozenTrial \<Rightarrow> real) option \<Rightarrow> bool" where
  "reversescale_of study target =
     (case target of None \<Rightarrow> direction study = MINIMIZE | Some f \<Rightarrow> True)"

text \<open>Lines 122 to 128: the axis of the target.\<close>

definition target_dim :: "string \<Rightarrow> (FrozenTrial \<Rightarrow> real) \<Rightarrow> FrozenTrial list \<Rightarrow> error + dim" where
  "target_dim target_name target ts =
     (case py_min (map target ts) of
        Inl e \<Rightarrow> Inl e
      | Inr mn \<Rightarrow>
          (case py_max (map target ts) of
             Inl e \<Rightarrow> Inl e
           | Inr mx \<Rightarrow>
               Inr \<lparr>label = target_name, dvalues = map (\<lambda>t. Num (target t)) ts,
                    drange = (Num mn, Num mx), tickvals = None, ticktext = None\<rparr>))"

text \<open>Lines 130 to 133: the raw values of one parameter, appended trial by trial.\<close>

definition collect_values :: "FrozenTrial list \<Rightarrow> string \<Rightarrow> pvalue list" where
  "collect_values ts p_name =
     foldl (\<lambda>vals t. case map_of (params t) p_name of Some v \<Rightarrow> vals @ [v] | None \<Rightarrow> vals) [] ts"

text \<open>Lines 145, 155 and 163: the label of a parameter's axis.\<close>

definition dim_label :: "string \<Rightarrow> string" where
  "dim_label p_name = (if length p_name < 20 then p_name else take 17 p_name @ ''...'')"

text \<open>Lines 139 to 143: the tick positions of a log-scaled axis.\<close>

definition log_tickvals :: "real \<Rightarrow> real \<Rightarrow> real list" where
  "log_tickvals min_value max_value =
     (let tickvals0 = map real_of_int (py_range \<lceil>min_value\<rceil> \<lceil>max_value\<rceil>);
          tickvals1 = (if min_value \<notin> set tickvals0 then [min_value] @ tickvals0 else tickvals0);
          tickvals2 = (if max_value \<notin> set tickvals1 then tickvals1 @ [max_value] else tickvals1)
      in tickvals2)"

text \<open>
  Line 149: the text of one tick. \<^verbatim>\<open>math.pow(10, x)\<close> is the parameter
  \<open>math_pow10\<close>, with \<open>None\<close> where the library raises \<^verbatim>\<open>OverflowError\<close>; the
  parameter \<open>fmt3g\<close> stands for \<^verbatim>\<open>"{:.3g}".format\<close>.
\<close>

definition tick_text :: "(real \<Rightarrow> real option) \<Rightarrow> (real \<Rightarrow> string) \<Rightarrow> real \<Rightarrow> error + pvalue" where
  "tick_text math_pow10 fmt3g x =
     (case math_pow10 x of
        None \<Rightarrow> Inl OverflowError
      | Some y \<Rightarrow> Inr (Str (fmt3g y)))"

text \<open>
  Lines 136 to 150. The entries of the dictionary are evaluated in the order they are
  written, the tick texts last.
\<close>

definition log_dim ::
  "(real \<Rightarrow> real) \<Rightarrow> (real \<Rightarrow> real option) \<Rightarrow> (real \<Rightarrow> string) \<Rightarrow> string \<Rightarrow>
   pvalue list \<Rightarrow> error + dim" where
  "log_dim math_log10 math_pow10 fmt3g p_name vals =
     (case map_err (log10 math_log10) vals of
        Inl e \<Rightarrow> Inl e
      | Inr lvals \<Rightarrow>
          (case py_min lvals of
             Inl e \<Rightarrow> Inl e
           | Inr min_value \<Rightarrow>
               (case py_max lvals of
                  Inl e \<Rightarrow> Inl e
                | Inr max_value \<Rightarrow>
                    (let tv = log_tickvals min_value max_value in
                     case map_err (tick_text math_pow10 fmt3g) tv of
                       Inl e \<Rightarrow> Inl e
                     | Inr texts \<Rightarrow>
                         Inr \<lparr>label = dim_label p_name, dvalues = map Num lvals,
                              drange = (Num min_value, Num max_value),
                              tickvals = Some (map Num tv),
                              ticktext = Some texts\<rparr>))))"

text \<open>
  Line 152: \<^verbatim>\<open>vocab\<close> is a \<^verbatim>\<open>defaultdict\<close> whose factory returns the current number of
  keys. It is an association list in insertion order; reading a key that is absent
  stores the key with the length of the list as its code.
\<close>

type_synonym vocab = "(pvalue \<times> nat) list"

definition vocab_getitem :: "vocab \<Rightarrow> pvalue \<Rightarrow> nat \<times> vocab" where
  "vocab_getitem vocab v =
     (case map_of vocab v of
        Some c \<Rightarrow> (c, vocab)
      | None \<Rightarrow> (length vocab, vocab @ [(v, length vocab)]))"

text \<open>Line 153: \<^verbatim>\<open>[vocab[v] for v in values]\<close>, threading the dictionary.\<close>

fun encode_values :: "vocab \<Rightarrow> pvalue list \<Rightarrow> nat list \<times> vocab" where
  "encode_values vocab [] = ([], vocab)"
| "encode_values vocab (v # vs) =
     (case vocab_getitem vocab v of
        (c, vocab1) \<Rightarrow>
          (case encode_values vocab1 vs of
             (cs, vocab2) \<Rightarrow> (c # cs, vocab2)))"

text \<open>Line 159: the sort key \<^verbatim>\<open>vocab[x]\<close> of a key of the dictionary.\<close>

definition vocab_code :: "vocab \<Rightarrow> pvalue \<Rightarrow> nat" where
  "vocab_code vocab x = (case map_of vocab x of Some c \<Rightarrow> c | None \<Rightarrow> length vocab)"

text \<open>Lines 152 to 160. Python's \<^verbatim>\<open>sorted\<close> is stable, as \<open>sort_key\<close> is.\<close>

definition cat_dim :: "string \<Rightarrow> pvalue list \<Rightarrow> error + dim" where
  "cat_dim p_name vals =
     (case encode_values [] vals of
        (codes, vocab) \<Rightarrow>
          (case py_min codes of
             Inl e \<Rightarrow> Inl e
           | Inr mn \<Rightarrow>
               (case py_max codes of
                  Inl e \<Rightarrow> Inl e
                | Inr mx \<Rightarrow>
                    Inr \<lparr>label = dim_label p_name, dvalues = map (\<lambda>c. Num (real c)) codes,
                         drange = (Num (real mn), Num (real mx)),
                         tickvals = Some (map (\<lambda>c. Num (real c)) [0..<length vocab]),
                         ticktext = Some (sort_key (vocab_code vocab) (map fst vocab))\<rparr>)))"

text \<open>Lines 162 to 166: a plain numeric axis.\<close>

definition num_dim :: "string \<Rightarrow> pvalue list \<Rightarrow> error + dim" where
  "num_dim p_name vals =
     (case pv_min vals of
        Inl e \<Rightarrow> Inl e
      | Inr mn \<Rightarrow>
          (case pv_max vals of
             Inl e \<Rightarrow> Inl e
           | Inr mx \<Rightarrow>
               Inr \<lparr>label = dim_label p_name, dvalues = vals, drange = (mn, mx),
                    tickvals = None, ticktext = None\<rparr>))"

text \<open>
  Lines 129 to 166, the body of the loop for one parameter. The parameters
  \<open>is_log_scale\<close> and \<open>is_categorical\<close> stand for the helpers
  \<^verbatim>\<open>_is_log_scale\<close> and \<^verbatim>\<open>_is_categorical\<close> of \<^verbatim>\<open>optuna.visualization._utils\<close>.
\<close>

definition param_dim ::
  "(FrozenTrial list \<Rightarrow> string \<Rightarrow> bool) \<Rightarrow> (FrozenTrial list \<Rightarrow> string \<Rightarrow> bool) \<Rightarrow>
   (real \<Rightarrow> real) \<Rightarrow> (real \<Rightarrow> real option) \<Rightarrow> (real \<Rightarrow> string) \<Rightarrow> FrozenTrial list \<Rightarrow> string \<Rightarrow> error + dim" where
  "param_dim is_log_scale is_categorical math_log10 math_pow10 fmt3g ts p_name =
     (let vals = collect_values ts p_name in
      if is_log_scale ts p_name then log_dim math_log10 math_pow10 fmt3g p_name vals
      else if is_categorical ts p_name then cat_dim p_name vals
      else num_dim p_name vals)"

text \<open>Lines 129 and 168: the loop over the sorted names, appending to \<^verbatim>\<open>dims\<close>.\<close>

fun build_dims ::
  "(FrozenTrial list \<Rightarrow> string \<Rightarrow> bool) \<Rightarrow> (FrozenTrial list \<Rightarrow> string \<Rightarrow> bool) \<Rightarrow>
   (real \<Rightarrow> real) \<Rightarrow> (real \<Rightarrow> real option) \<Rightarrow> (real \<Rightarrow> string) \<Rightarrow> FrozenTrial list \<Rightarrow> dim list \<Rightarrow> string list \<Rightarrow> error + dim list" where
  "build_dims is_log_scale is_categorical math_log10 math_pow10 fmt3g ts dims [] = Inr dims"
| "build_dims is_log_scale is_categorical math_log10 math_pow10 fmt3g ts dims (p_name # ps) =
     (case param_dim is_log_scale is_categorical math_log10 math_pow10 fmt3g ts p_name of
        Inl e \<Rightarrow> Inl e
      | Inr d \<Rightarrow> build_dims is_log_scale is_categorical math_log10 math_pow10 fmt3g ts (dims @ [d]) ps)"

text \<open>Lines 89 to 187.\<close>

definition get_parallel_coordinate_plot ::
  "(FrozenTrial list \<Rightarrow> string \<Rightarrow> bool) \<Rightarrow> (FrozenTrial list \<Rightarrow> string \<Rightarrow> bool) \<Rightarrow>
   (real \<Rightarrow> real) \<Rightarrow> (real \<Rightarrow> real option) \<Rightarrow> (real \<Rightarrow> string) \<Rightarrow> Study \<Rightarrow> string list option \<Rightarrow> (FrozenTrial \<Rightarrow> real) option \<Rightarrow>
   string \<Rightarrow> error + Figure" where
  "get_parallel_coordinate_plot is_log_scale is_categorical math_log10 math_pow10 fmt3g study ps target target_name =
     (let ts = complete_trials study in
      if length ts = 0 then Inr \<lparr>data = [], layout_title = ''Parallel Coordinate Plot''\<rparr>
      else
        (case select_params ts ps of
           Inl e \<Rightarrow> Inl e
         | Inr all_params \<Rightarrow>
             (let sorted_params = sorted_list_of_set all_params;
                  reversescale = reversescale_of study target in
              case target_dim target_name (target_of target) ts of
                Inl e \<Rightarrow> Inl e
              | Inr d0 \<Rightarrow>
                  (case build_dims is_log_scale is_categorical math_log10 math_pow10 fmt3g ts [d0] sorted_params of
                     Inl e \<Rightarrow> Inl e
                   | Inr dims \<Rightarrow>
                       Inr \<lparr>data =
                              [\<lparr>dimensions = dims, labelangle = 30, labelside = ''bottom'',
                                line_color = dvalues (dims ! 0), line_colorscale = ''blues'',
                                line_colorbar_title = target_name, line_showscale = True,
                                line_reversescale = reversescale\<rparr>],
                            layout_title = ''Parallel Coordinate Plot''\<rparr>))))"

text \<open>The descriptor list of a figure: the dimensions of its traces.\<close>

definition descriptors :: "Figure \<Rightarrow> dim list" where
  "descriptors fig = concat (map dimensions (data fig))"

section \<open>Notions of the specification\<close>

text \<open>
  The parameter set the call works on, once the requested names have been checked
  (line 109 when \<^verbatim>\<open>params\<close> is given, line 104 otherwise), and its sorted list
  (line 110).
\<close>

definition selected_params :: "FrozenTrial list \<Rightarrow> string list option \<Rightarrow> string set" where
  "selected_params ts ps = (case ps of None \<Rightarrow> union_params ts | Some l \<Rightarrow> set l)"

definition sorted_params :: "FrozenTrial list \<Rightarrow> string list option \<Rightarrow> string list" where
  "sorted_params ts ps = sorted_list_of_set (selected_params ts ps)"

text \<open>
  The distinct values of a sequence in the order of their first occurrence, and the
  position of a value in a list without repetition: the code the specification gives
  the value.
\<close>

fun first_seen :: "'a list \<Rightarrow> 'a list" where
  "first_seen [] = []"
| "first_seen (x # xs) = x # first_seen (filter (\<lambda>y. y \<noteq> x) xs)"

definition code_of :: "'a list \<Rightarrow> 'a \<Rightarrow> nat" where
  "code_of ks v = length (takeWhile (\<lambda>k. k \<noteq> v) ks)"

text \<open>
  The dictionary in which the keys \<open>ks\<close> carry the codes \<open>0, 1, ...\<close> in this order.
\<close>

definition vocab_of :: "pvalue list \<Rightarrow> vocab" where
  "vocab_of ks = zip ks [0..<length ks]"

text \<open>
  The tick positions of a log-scaled axis as the specification words them: the
  integers \<^verbatim>\<open>range(ceil(minValue), ceil(maxValue))\<close>, the minimum in front when it is
  not one of these integers, the maximum behind when it is not one of these integers.
\<close>

definition claimed_log_tickvals :: "real \<Rightarrow> real \<Rightarrow> real list" where
  "claimed_log_tickvals mn mx =
     (let ints = map real_of_int (py_range \<lceil>mn\<rceil> \<lceil>mx\<rceil>) in
      (if mn \<in> set ints then [] else [mn]) @ ints @ (if mx \<in> set ints then [] else [mx]))"

text \<open>
  The same with the condition the source has: the maximum is looked up in the list
  that may already start with the minimum, so it is not appended when it equals the
  minimum.
\<close>

definition amended_log_tickvals :: "real \<Rightarrow> real \<Rightarrow> real list" where
  "amended_log_tickvals mn mx =
     (let ints = map real_of_int (py_range \<lceil>mn\<rceil> \<lceil>mx\<rceil>) in
      (if mn \<in> set ints then [] else [mn]) @ ints @
      (if mx \<in> set ints \<or> mx = mn then [] else [mx]))"

text \<open>
  A tick position lies within a range, both ends included; positions and ends are
  numbers.
\<close>

fun within_range :: "pvalue \<times> pvalue \<Rightarrow> pvalue \<Rightarrow> bool" where
  "within_range (Num lo, Num hi) (Num t) = (lo \<le> t \<and> t \<le> hi)"
| "within_range r t = False"

section \<open>Example studies\<close>

text \<open>
  The reals that the floats \<^verbatim>\<open>1e-06\<close>, \<^verbatim>\<open>1e-05\<close>, \<^verbatim>\<open>0.0001\<close> and \<^verbatim>\<open>0.001\<close> denote, the
  largest float, and the float \<^verbatim>\<open>308.25471555991675\<close> that \<^verbatim>\<open>math.log10\<close> returns on it.
\<close>

definition float_1e_06 :: real where
  "float_1e_06 = 4722366482869645 / 4722366482869645213696"

definition float_1e_05 :: real where
  "float_1e_05 = 5902958103587057 / 590295810358705651712"

definition float_1e_04 :: real where
  "float_1e_04 = 7378697629483821 / 73786976294838206464"

definition float_1e_03 :: real where
  "float_1e_03 = 1152921504606847 / 1152921504606846976"

definition float_max :: real where
  "float_max = (2 ^ 53 - 1) * 2 ^ 971"

definition float_log10_max :: real where
  "float_log10_max = 5422874305198591 / 17592186044416"

text \<open>
  Stand-ins for the parameters in the examples. Each agrees with Python on the
  arguments listed: \<^verbatim>\<open>math.log10\<close> returns \<^verbatim>\<open>-6.0\<close> and \<^verbatim>\<open>-3.0\<close> on the floats
  \<^verbatim>\<open>1e-06\<close> and \<^verbatim>\<open>0.001\<close>, which are not powers of ten as reals; \<^verbatim>\<open>math.pow\<close> raises
  \<^verbatim>\<open>OverflowError\<close> on \<^verbatim>\<open>(10, 308.25471555991675)\<close>. Elsewhere they are arbitrary.
\<close>

definition example_log10 :: "real \<Rightarrow> real" where
  "example_log10 r =
     (if r = 1 then 0 else if r = 10 then 1 else if r = 100 then 2
      else if r = float_1e_06 then - 6 else if r = float_1e_03 then - 3
      else if r = float_max then float_log10_max else 0)"

definition example_pow10 :: "real \<Rightarrow> real option" where
  "example_pow10 x =
     (if x = 0 then Some 1 else if x = 1 then Some 10 else if x = 2 then Some 100
      else if x = - 6 then Some float_1e_06 else if x = - 5 then Some float_1e_05
      else if x = - 4 then Some float_1e_04 else if x = - 3 then Some float_1e_03
      else None)"

definition example_fmt3g :: "real \<Rightarrow> string" where
  "example_fmt3g y =
     (if y = 1 then ''1'' else if y = 10 then ''10'' else if y = 100 then ''100''
      else if y = float_1e_06 then ''1e-06'' else if y = float_1e_05 then ''1e-05''
      else if y = float_1e_04 then ''0.0001'' else if y = float_1e_03 then ''0.001''
      else ''?'')"

text \<open>
  The end-to-end example of the specification, with one failed trial added: \<open>x\<close> is
  log-scaled, \<open>y\<close> is categorical.
\<close>

definition example_study :: Study where
  "example_study =
     \<lparr>trials =
        [\<lparr>state = COMPLETE, params = [(''x'', Num 1), (''y'', Str ''a'')], tvalue = 5\<rparr>,
         \<lparr>state = COMPLETE, params = [(''x'', Num 10), (''y'', Str ''b'')], tvalue = 3\<rparr>,
         \<lparr>state = FAIL, params = [(''x'', Num 7)], tvalue = 0\<rparr>,
         \<lparr>state = COMPLETE, params = [(''x'', Num 100), (''y'', Str ''a'')], tvalue = 9\<rparr>],
      direction = MINIMIZE\<rparr>"

definition example_figure :: Figure where
  "example_figure =
     \<lparr>data =
        [\<lparr>dimensions =
            [\<lparr>label = ''Objective Value'', dvalues = [Num 5, Num 3, Num 9],
              drange = (Num 3, Num 9), tickvals = None, ticktext = None\<rparr>,
             \<lparr>label = ''x'', dvalues = [Num 0, Num 1, Num 2],
              drange = (Num 0, Num 2), tickvals = Some [Num 0, Num 1, Num 2],
              ticktext = Some [Str ''1'', Str ''10'', Str ''100'']\<rparr>,
             \<lparr>label = ''y'', dvalues = [Num 0, Num 1, Num 0],
              drange = (Num 0, Num 1), tickvals = Some [Num 0, Num 1],
              ticktext = Some [Str ''a'', Str ''b'']\<rparr>],
          labelangle = 30, labelside = ''bottom'',
          line_color = [Num 5, Num 3, Num 9], line_colorscale = ''blues'',
          line_colorbar_title = ''Objective Value'', line_showscale = True,
          line_reversescale = True\<rparr>],
      layout_title = ''Parallel Coordinate Plot''\<rparr>"

text \<open>
  A categorical parameter taking the values \<open>a, b, a, c\<close>; with a custom target the same
  study gives \<open>custom_target_figure\<close>.
\<close>

definition vocab_study :: Study where
  "vocab_study =
     \<lparr>trials =
        [\<lparr>state = COMPLETE, params = [(''y'', Str ''a'')], tvalue = 1\<rparr>,
         \<lparr>state = COMPLETE, params = [(''y'', Str ''b'')], tvalue = 2\<rparr>,
         \<lparr>state = COMPLETE, params = [(''y'', Str ''a'')], tvalue = 3\<rparr>,
         \<lparr>state = COMPLETE, params = [(''y'', Str ''c'')], tvalue = 4\<rparr>],
      direction = MAXIMIZE\<rparr>"

definition vocab_figure :: Figure where
  "vocab_figure =
     \<lparr>data =
        [\<lparr>dimensions =
            [\<lparr>label = ''Objective Value'', dvalues = [Num 1, Num 2, Num 3, Num 4],
              drange = (Num 1, Num 4), tickvals = None, ticktext = None\<rparr>,
             \<lparr>label = ''y'', dvalues = [Num 0, Num 1, Num 0, Num 2],
              drange = (Num 0, Num 2), tickvals = Some [Num 0, Num 1, Num 2],
              ticktext = Some [Str ''a'', Str ''b'', Str ''c'']\<rparr>],
          labelangle = 30, labelside = ''bottom'',
          line_color = [Num 1, Num 2, Num 3, Num 4], line_colorscale = ''blues'',
          line_colorbar_title = ''Objective Value'', line_showscale = True,
          line_reversescale = False\<rparr>],
      layout_title = ''Parallel Coordinate Plot''\<rparr>"

definition custom_target_figure :: Figure where
  "custom_target_figure =
     \<lparr>data =
        [\<lparr>dimensions =
            [\<lparr>label = ''Loss'', dvalues = [Num (- 1), Num (- 2), Num (- 3), Num (- 4)],
              drange = (Num (- 4), Num (- 1)), tickvals = None, ticktext = None\<rparr>,
             \<lparr>label = ''y'', dvalues = [Num 0, Num 1, Num 0, Num 2],
              drange = (Num 0, Num 2), tickvals = Some [Num 0, Num 1, Num 2],
              ticktext = Some [Str ''a'', Str ''b'', Str ''c'']\<rparr>],
          labelangle = 30, labelside = ''bottom'',
          line_color = [Num (- 1), Num (- 2), Num (- 3), Num (- 4)], line_colorscale = ''blues'',
          line_colorbar_title = ''Loss'', line_showscale = True,
          line_reversescale = True\<rparr>],
      layout_title = ''Parallel Coordinate Plot''\<rparr>"

text \<open>
  One completed trial with one log-scaled parameter.
\<close>

definition single_log_study :: Study where
  "single_log_study =
     \<lparr>trials = [\<lparr>state = COMPLETE, params = [(''x'', Num 10)], tvalue = 4\<rparr>],
      direction = MINIMIZE\<rparr>"

definition single_log_figure :: Figure where
  "single_log_figure =
     \<lparr>data =
        [\<lparr>dimensions =
            [\<lparr>label = ''Objective Value'', dvalues = [Num 4],
              drange = (Num 4, Num 4), tickvals = None, ticktext = None\<rparr>,
             \<lparr>label = ''x'', dvalues = [Num 1],
              drange = (Num 1, Num 1), tickvals = Some [Num 1],
              ticktext = Some [Str ''10'']\<rparr>],
          labelangle = 30, labelside = ''bottom'',
          line_color = [Num 4], line_colorscale = ''blues'',
          line_colorbar_title = ''Objective Value'', line_showscale = True,
          line_reversescale = True\<rparr>],
      layout_title = ''Parallel Coordinate Plot''\<rparr>"

text \<open>
  A log-scaled parameter with the float values \<^verbatim>\<open>1e-06\<close> and \<^verbatim>\<open>0.001\<close>: Python gives the
  ticks \<^verbatim>\<open>[-6, -5, -4, -3.0]\<close> with the texts \<^verbatim>\<open>1e-06\<close>, \<^verbatim>\<open>1e-05\<close>, \<^verbatim>\<open>0.0001\<close>,
  \<^verbatim>\<open>0.001\<close>.
\<close>

definition small_log_study :: Study where
  "small_log_study =
     \<lparr>trials =
        [\<lparr>state = COMPLETE, params = [(''x'', Num float_1e_06)], tvalue = 2\<rparr>,
         \<lparr>state = RUNNING, params = [(''x'', Num 100)], tvalue = 0\<rparr>,
         \<lparr>state = COMPLETE, params = [(''x'', Num float_1e_03)], tvalue = 1\<rparr>],
      direction = MINIMIZE\<rparr>"

definition small_log_figure :: Figure where
  "small_log_figure =
     \<lparr>data =
        [\<lparr>dimensions =
            [\<lparr>label = ''Objective Value'', dvalues = [Num 2, Num 1],
              drange = (Num 1, Num 2), tickvals = None, ticktext = None\<rparr>,
             \<lparr>label = ''x'', dvalues = [Num (- 6), Num (- 3)],
              drange = (Num (- 6), Num (- 3)),
              tickvals = Some [Num (- 6), Num (- 5), Num (- 4), Num (- 3)],
              ticktext = Some [Str ''1e-06'', Str ''1e-05'', Str ''0.0001'', Str ''0.001'']\<rparr>],
          labelangle = 30, labelside = ''bottom'',
          line_color = [Num 2, Num 1], line_colorscale = ''blues'',
          line_colorbar_title = ''Objective Value'', line_showscale = True,
          line_reversescale = True\<rparr>],
      layout_title = ''Parallel Coordinate Plot''\<rparr>"

text \<open>
  A log-scaled parameter whose one value is the largest float: the text of its tick
  overflows.
\<close>

definition overflow_study :: Study where
  "overflow_study =
     \<lparr>trials = [\<lparr>state = COMPLETE, params = [(''x'', Num float_max)], tvalue = 4\<rparr>],
      direction = MINIMIZE\<rparr>"

text \<open>
  The second trial has no value for \<open>y\<close>; the third has one and is not complete.
\<close>

definition sparse_study :: Study where
  "sparse_study =
     \<lparr>trials =
        [\<lparr>state = COMPLETE, params = [(''x'', Num 1), (''y'', Str ''a'')], tvalue = 5\<rparr>,
         \<lparr>state = COMPLETE, params = [(''x'', Num 2)], tvalue = 3\<rparr>,
         \<lparr>state = PRUNED, params = [(''x'', Num 4), (''y'', Str ''c'')], tvalue = 1\<rparr>,
         \<lparr>state = COMPLETE, params = [(''x'', Num 3), (''y'', Str ''b'')], tvalue = 9\<rparr>],
      direction = MINIMIZE\<rparr>"

definition sparse_figure :: Figure where
  "sparse_figure =
     \<lparr>data =
        [\<lparr>dimensions =
            [\<lparr>label = ''Objective Value'', dvalues = [Num 5, Num 3, Num 9],
              drange = (Num 3, Num 9), tickvals = None, ticktext = None\<rparr>,
             \<lparr>label = ''x'', dvalues = [Num 1, Num 2, Num 3],
              drange = (Num 1, Num 3), tickvals = None, ticktext = None\<rparr>,
             \<lparr>label = ''y'', dvalues = [Num 0, Num 1],
              drange = (Num 0, Num 1), tickvals = Some [Num 0, Num 1],
              ticktext = Some [Str ''a'', Str ''b'']\<rparr>],
          labelangle = 30, labelside = ''bottom'',
          line_color = [Num 5, Num 3, Num 9], line_colorscale = ''blues'',
          line_colorbar_title = ''Objective Value'', line_showscale = True,
          line_reversescale = True\<rparr>],
      layout_title = ''Parallel Coordinate Plot''\<rparr>"

text \<open>
  No trial is complete.
\<close>

definition unfinished_study :: Study where
  "unfinished_study =
     \<lparr>trials =
        [\<lparr>state = FAIL, params = [(''x'', Num 1)], tvalue = 0\<rparr>,
         \<lparr>state = RUNNING, params = [(''x'', Num 2)], tvalue = 0\<rparr>,
         \<lparr>state = PRUNED, params = [(''x'', Num 3)], tvalue = 0\<rparr>,
         \<lparr>state = WAITING, params = [], tvalue = 0\<rparr>],
      direction = MINIMIZE\<rparr>"

text \<open>
  Names of 34, 20 and 19 characters.
\<close>

definition long_name_study :: Study where
  "long_name_study =
     \<lparr>trials =
        [\<lparr>state = COMPLETE,
          params = [(''this_is_a_very_long_parameter_name'', Num 1),
                    (''exactly_twenty_chars'', Num 2),
                    (''nineteen_characters'', Num 3)],
          tvalue = 7\<rparr>],
      direction = MAXIMIZE\<rparr>"

definition long_name_figure :: Figure where
  "long_name_figure =
     \<lparr>data =
        [\<lparr>dimensions =
            [\<lparr>label = ''Objective Value'', dvalues = [Num 7],
              drange = (Num 7, Num 7), tickvals = None, ticktext = None\<rparr>,
             \<lparr>label = ''exactly_twenty_ch...'', dvalues = [Num 2],
              drange = (Num 2, Num 2), tickvals = None, ticktext = None\<rparr>,
             \<lparr>label = ''nineteen_characters'', dvalues = [Num 3],
              drange = (Num 3, Num 3), tickvals = None, ticktext = None\<rparr>,
             \<lparr>label = ''this_is_a_very_lo...'', dvalues = [Num 1],
              drange = (Num 1, Num 1), tickvals = None, ticktext = None\<rparr>],
          labelangle = 30, labelside = ''bottom'',
          line_color = [Num 7], line_colorscale = ''blues'',
          line_colorbar_title = ''Objective Value'', line_showscale = True,
          line_reversescale = False\<rparr>],
      layout_title = ''Parallel Coordinate Plot''\<rparr>"

section \<open>Minimum and maximum\<close>

lemma foldl_min_eq: "foldl (\<lambda>m y. if y < m then y else m) x ys = Min (set (x # ys))"
proof (induction ys arbitrary: x)
  case Nil
  then show ?case by simp
next
  case (Cons y ys)
  have "Min (insert (if y < x then y else x) (set ys)) = Min (insert x (insert y (set ys)))"
    by (cases "set ys = {}") (auto simp: min_def Min_insert)
  with Cons show ?case by simp
qed

lemma foldl_max_eq: "foldl (\<lambda>m y. if m < y then y else m) x ys = Max (set (x # ys))"
proof (induction ys arbitrary: x)
  case Nil
  then show ?case by simp
next
  case (Cons y ys)
  have "Max (insert (if x < y then y else x) (set ys)) = Max (insert x (insert y (set ys)))"
    by (cases "set ys = {}") (auto simp: max_def Max_insert)
  with Cons show ?case by simp
qed

lemma py_min_eq: "xs \<noteq> [] \<Longrightarrow> py_min xs = Inr (Min (set xs))"
  by (cases xs) (simp_all add: py_min_def foldl_min_eq del: foldl.simps)

lemma py_max_eq: "xs \<noteq> [] \<Longrightarrow> py_max xs = Inr (Max (set xs))"
  by (cases xs) (simp_all add: py_max_def foldl_max_eq)

lemma py_min_Inr: "py_min xs = Inr m \<Longrightarrow> xs \<noteq> [] \<and> m = Min (set xs)"
  by (cases xs) (simp_all add: py_min_def foldl_min_eq)

lemma py_max_Inr: "py_max xs = Inr m \<Longrightarrow> xs \<noteq> [] \<and> m = Max (set xs)"
  by (cases xs) (simp_all add: py_max_def foldl_max_eq)

section \<open>Collecting the raw values\<close>

lemma collect_values_foldl:
  "foldl (\<lambda>vals t. case map_of (params t) p of Some v \<Rightarrow> vals @ [v] | None \<Rightarrow> vals) acc ts
     = acc @ List.map_filter (\<lambda>t. map_of (params t) p) ts"
  by (induction ts arbitrary: acc) (auto simp: List.map_filter_simps split: option.splits)

lemma collect_values_eq:
  "collect_values ts p = List.map_filter (\<lambda>t. map_of (params t) p) ts"
  by (simp add: collect_values_def collect_values_foldl)

lemma length_collect_values:
  "length (collect_values ts p) = length (filter (\<lambda>t. map_of (params t) p \<noteq> None) ts)"
  by (simp add: collect_values_eq List.map_filter_def)

lemma collect_values_nonempty:
  "p \<in> union_params ts \<Longrightarrow> collect_values ts p \<noteq> []"
proof -
  assume "p \<in> union_params ts"
  then obtain t where t: "t \<in> set ts" "p \<in> fst ` set (params t)"
    by (auto simp: union_params_def)
  then have "map_of (params t) p \<noteq> None"
    by (simp add: map_of_eq_None_iff)
  with t(1) have "filter (\<lambda>t. map_of (params t) p \<noteq> None) ts \<noteq> []"
    by (auto simp: filter_empty_conv)
  then show ?thesis
    using length_collect_values [of ts p] by auto
qed

section \<open>The vocabulary of a categorical parameter\<close>

lemma code_of_Cons: "code_of (k # ks) v = (if k = v then 0 else Suc (code_of ks v))"
  by (simp add: code_of_def)

lemma code_of_append_in: "v \<in> set ks \<Longrightarrow> code_of (ks @ ks') v = code_of ks v"
  by (induction ks) (auto simp: code_of_Cons)

lemma code_of_append_notin: "v \<notin> set ks \<Longrightarrow> code_of (ks @ ks') v = length ks + code_of ks' v"
  by (induction ks) (auto simp: code_of_Cons code_of_def)

lemma code_of_nth: "distinct ks \<Longrightarrow> i < length ks \<Longrightarrow> code_of ks (ks ! i) = i"
proof (induction ks arbitrary: i)
  case Nil
  then show ?case by simp
next
  case (Cons k ks)
  then show ?case by (cases i) (auto simp: code_of_Cons)
qed

lemma map_code_of_distinct: "distinct ks \<Longrightarrow> map (code_of ks) ks = [0..<length ks]"
  by (rule nth_equalityI) (simp_all add: code_of_nth)

lemma set_first_seen: "set (first_seen xs) = set xs"
  by (induction xs rule: first_seen.induct) auto

lemma distinct_first_seen: "distinct (first_seen xs)"
  by (induction xs rule: first_seen.induct) (auto simp: set_first_seen)

lemma length_first_seen: "length (first_seen xs) = card (set xs)"
  using distinct_card [OF distinct_first_seen, of xs] by (simp add: set_first_seen)

lemma map_of_zip_upt:
  "m = n + length ks \<Longrightarrow>
     map_of (zip ks [n..<m]) v = (if v \<in> set ks then Some (n + code_of ks v) else None)"
proof (induction ks arbitrary: n)
  case Nil
  then show ?case by simp
next
  case (Cons k ks)
  have "n < m"
    using Cons.prems by simp
  then have e: "[n..<m] = n # [Suc n..<m]"
    by (rule upt_conv_Cons)
  have "m = Suc n + length ks"
    using Cons.prems by simp
  then have ih: "map_of (zip ks [Suc n..<m]) v =
      (if v \<in> set ks then Some (Suc n + code_of ks v) else None)"
    by (rule Cons.IH)
  show ?case
    unfolding e by (simp add: ih code_of_Cons)
qed

lemma map_of_vocab_of:
  "map_of (vocab_of ks) v = (if v \<in> set ks then Some (code_of ks v) else None)"
  using map_of_zip_upt [of "length ks" 0 ks v] by (simp add: vocab_of_def)

lemma vocab_of_snoc: "vocab_of ks @ [(v, length ks)] = vocab_of (ks @ [v])"
  by (simp add: vocab_of_def)

lemma length_vocab_of: "length (vocab_of ks) = length ks"
  by (simp add: vocab_of_def)

lemma map_fst_vocab_of: "map fst (vocab_of ks) = ks"
  by (simp add: vocab_of_def)

lemma vocab_getitem_vocab_of:
  "vocab_getitem (vocab_of ks) v =
     (if v \<in> set ks then (code_of ks v, vocab_of ks) else (length ks, vocab_of (ks @ [v])))"
  by (simp add: vocab_getitem_def map_of_vocab_of length_vocab_of vocab_of_snoc)

lemma encode_values_vocab_of:
  "encode_values (vocab_of ks) vs =
     (map (code_of (ks @ first_seen (filter (\<lambda>v. v \<notin> set ks) vs))) vs,
      vocab_of (ks @ first_seen (filter (\<lambda>v. v \<notin> set ks) vs)))"
proof (induction vs arbitrary: ks)
  case Nil
  then show ?case by simp
next
  case (Cons v vs)
  show ?case
  proof (cases "v \<in> set ks")
    case True
    then show ?thesis
      by (simp add: vocab_getitem_vocab_of Cons.IH code_of_append_in)
  next
    case False
    from False show ?thesis
      by (simp add: vocab_getitem_vocab_of Cons.IH [of "ks @ [v]"] code_of_append_notin
          code_of_Cons conj_commute)
  qed
qed

lemma encode_values_empty:
  "encode_values [] vs = (map (code_of (first_seen vs)) vs, vocab_of (first_seen vs))"
  using encode_values_vocab_of [of "[]" vs] by (simp add: vocab_of_def)

lemma sort_key_vocab_of:
  "distinct ks \<Longrightarrow> sort_key (vocab_code (vocab_of ks)) ks = ks"
proof -
  assume d: "distinct ks"
  have "map (vocab_code (vocab_of ks)) ks = map (code_of ks) ks"
    by (rule map_cong) (simp_all add: vocab_code_def map_of_vocab_of)
  then have "sorted (map (vocab_code (vocab_of ks)) ks)"
    using d by (simp add: map_code_of_distinct)
  then show ?thesis by (rule sort_key_id_if_sorted)
qed

lemma set_codes:
  "set (map (code_of (first_seen vs)) vs) = {0..<card (set vs)}"
proof -
  let ?ks = "first_seen vs"
  have "code_of ?ks ` set ?ks = set (map (code_of ?ks) ?ks)" by simp
  also have "\<dots> = {0..<length ?ks}"
    by (simp only: map_code_of_distinct [OF distinct_first_seen] set_upt)
  finally show ?thesis by (simp add: set_first_seen length_first_seen)
qed

lemma cat_dim_eq:
  assumes "vals \<noteq> []"
  shows "cat_dim p vals =
     Inr \<lparr>label = dim_label p,
          dvalues = map (\<lambda>v. Num (real (code_of (first_seen vals) v))) vals,
          drange = (Num 0, Num (real (card (set vals) - 1))),
          tickvals = Some (map (\<lambda>c. Num (real c)) [0..<card (set vals)]),
          ticktext = Some (first_seen vals)\<rparr>"
proof -
  let ?codes = "map (code_of (first_seen vals)) vals"
  have ne: "?codes \<noteq> []" using assms by simp
  have pos: "0 < card (set vals)" using assms by (simp add: card_gt_0_iff)
  have mn: "py_min ?codes = Inr 0"
    using pos by (simp only: py_min_eq [OF ne] set_codes) (simp add: Min_eq_iff)
  have "Max {0..<card (set vals)} = card (set vals) - 1"
    using pos by (intro Max_eqI) auto
  then have mx: "py_max ?codes = Inr (card (set vals) - 1)"
    by (simp only: py_max_eq [OF ne] set_codes)
  show ?thesis
    by (simp add: cat_dim_def encode_values_empty mn mx length_vocab_of map_fst_vocab_of
        sort_key_vocab_of distinct_first_seen length_first_seen comp_def)
qed

section \<open>The ticks of a log-scaled parameter\<close>

lemma map_err_Inr_D: "map_err f xs = Inr ys \<Longrightarrow> list_all2 (\<lambda>x y. f x = Inr y) xs ys"
  by (induction xs arbitrary: ys) (auto split: sum.splits)

lemma py_range_set: "set (py_range a b) = {k. a \<le> k \<and> k < b}"
  by (auto simp: py_range_def)

lemma max_not_tick: "mx \<notin> set (map real_of_int (py_range a \<lceil>mx\<rceil>))"
proof
  assume "mx \<in> set (map real_of_int (py_range a \<lceil>mx\<rceil>))"
  then obtain k where "mx = real_of_int k" "k < \<lceil>mx\<rceil>"
    by (auto simp: py_range_set)
  then show False by simp
qed

lemma log_tickvals_eq:
  "log_tickvals mn mx =
     (let ints = map real_of_int (py_range \<lceil>mn\<rceil> \<lceil>mx\<rceil>) in
      (if mn \<in> set ints then [] else [mn]) @ ints @ (if mx = mn then [] else [mx]))"
  using max_not_tick [of mx "\<lceil>mn\<rceil>"]
  by (auto simp: log_tickvals_def Let_def)

lemma log_tickvals_amended: "log_tickvals mn mx = amended_log_tickvals mn mx"
  using max_not_tick [of mx "\<lceil>mn\<rceil>"]
  by (simp add: log_tickvals_eq amended_log_tickvals_def Let_def)

lemma log_tickvals_bounds:
  assumes "mn \<le> mx" and "t \<in> set (log_tickvals mn mx)"
  shows "mn \<le> t \<and> t \<le> mx"
proof -
  have "mn \<le> real_of_int k \<and> real_of_int k \<le> mx" if "\<lceil>mn\<rceil> \<le> k" "k < \<lceil>mx\<rceil>" for k
  proof
    show "mn \<le> real_of_int k" using that(1) by (simp add: ceiling_le_iff)
    show "real_of_int k \<le> mx" using that(2) by (simp add: less_ceiling_iff)
  qed
  with assms show ?thesis
    by (auto simp: log_tickvals_def Let_def py_range_set split: if_splits)
qed

lemma log10_Inr: "log10 lg v = Inr l \<longleftrightarrow> (\<exists>r. v = Num r \<and> 0 < r \<and> l = lg r)"
  by (cases v) auto

lemma tick_text_Inr:
  "tick_text pw fmt x = Inr s \<longleftrightarrow> (\<exists>y. pw x = Some y \<and> s = Str (fmt y))"
  by (auto simp: tick_text_def split: option.splits)

lemma tick_texts_strings:
  "list_all2 (\<lambda>x s. tick_text pw fmt x = Inr s) xs tt \<Longrightarrow>
     \<exists>texts. tt = map Str texts \<and> list_all2 (\<lambda>x s. \<exists>y. pw x = Some y \<and> s = fmt y) xs texts"
proof (induction rule: list_all2_induct)
  case Nil
  then show ?case by simp
next
  case (Cons x xs s tt)
  then obtain texts y where "tt = map Str texts"
    and "list_all2 (\<lambda>x s. \<exists>y. pw x = Some y \<and> s = fmt y) xs texts"
    and "pw x = Some y" and "s = Str (fmt y)"
    by (auto simp: tick_text_Inr)
  then have "s # tt = map Str (fmt y # texts)
      \<and> list_all2 (\<lambda>x s. \<exists>y. pw x = Some y \<and> s = fmt y) (x # xs) (fmt y # texts)"
    by simp
  then show ?case by (rule exI)
qed

lemma log_values_map:
  "list_all2 (\<lambda>v l. log10 lg v = Inr l) vals lvals \<Longrightarrow>
     map Num lvals = map (\<lambda>v. case v of Num r \<Rightarrow> Num (lg r) | Str s \<Rightarrow> v) vals"
  by (induction rule: list_all2_induct) (auto simp: log10_Inr)

lemma log_dim_Inr:
  assumes "log_dim lg pw fmt p vals = Inr d"
  shows "\<exists>lvals texts. list_all2 (\<lambda>v l. log10 lg v = Inr l) vals lvals \<and> lvals \<noteq> [] \<and>
     list_all2 (\<lambda>x s. tick_text pw fmt x = Inr s)
       (log_tickvals (Min (set lvals)) (Max (set lvals))) texts \<and>
     d = \<lparr>label = dim_label p, dvalues = map Num lvals,
          drange = (Num (Min (set lvals)), Num (Max (set lvals))),
          tickvals = Some (map Num (log_tickvals (Min (set lvals)) (Max (set lvals)))),
          ticktext = Some texts\<rparr>"
proof -
  from assms obtain lvals mn mx texts where l: "map_err (log10 lg) vals = Inr lvals"
    and mn: "py_min lvals = Inr mn" and mx: "py_max lvals = Inr mx"
    and t: "map_err (tick_text pw fmt) (log_tickvals mn mx) = Inr texts"
    and d: "d = \<lparr>label = dim_label p, dvalues = map Num lvals, drange = (Num mn, Num mx),
          tickvals = Some (map Num (log_tickvals mn mx)), ticktext = Some texts\<rparr>"
    by (auto simp: log_dim_def Let_def split: sum.splits)
  from mn mx have m: "lvals \<noteq> []" "mn = Min (set lvals)" "mx = Max (set lvals)"
    by (auto dest: py_min_Inr py_max_Inr)
  from l have "list_all2 (\<lambda>v l. log10 lg v = Inr l) vals lvals"
    by (rule map_err_Inr_D)
  moreover from t m have "list_all2 (\<lambda>x s. tick_text pw fmt x = Inr s)
       (log_tickvals (Min (set lvals)) (Max (set lvals))) texts"
    by (auto dest: map_err_Inr_D)
  ultimately show ?thesis
    using m d by blast
qed

section \<open>The loop and the whole function\<close>

lemma dim_label_param_dim: "param_dim il ic lg pw fmt ts p = Inr d \<Longrightarrow> label d = dim_label p"
  by (auto simp: param_dim_def Let_def log_dim_def cat_dim_def num_dim_def
      split: if_splits sum.splits prod.splits)

lemma param_dim_values:
  assumes "param_dim il ic lg pw fmt ts p = Inr d"
  shows "dvalues d =
     map (\<lambda>v. if il ts p then (case v of Num r \<Rightarrow> Num (lg r) | Str s \<Rightarrow> v)
              else if ic ts p then Num (real (code_of (first_seen (collect_values ts p)) v))
              else v)
       (collect_values ts p)"
proof (cases "il ts p")
  case True
  with assms have "log_dim lg pw fmt p (collect_values ts p) = Inr d"
    by (simp add: param_dim_def)
  from log_dim_Inr [OF this] True show ?thesis
    by (auto dest: log_values_map)
next
  case False
  show ?thesis
  proof (cases "ic ts p")
    case True
    with False assms have c: "cat_dim p (collect_values ts p) = Inr d"
      by (simp add: param_dim_def)
    then have "collect_values ts p \<noteq> []"
      by (auto simp: cat_dim_def py_min_def)
    from cat_dim_eq [OF this, of p] c False True show ?thesis
      by auto
  next
    case f: False
    with False assms show ?thesis
      by (auto simp: param_dim_def num_dim_def Let_def split: sum.splits)
  qed
qed

lemma log_dim_ticks:
  assumes "log_dim lg pw fmt p vals = Inr d" and "tickvals d = Some tv"
  shows "list_all (within_range (drange d)) tv
       \<and> (\<exists>tt. ticktext d = Some tt \<and> length tt = length tv)"
proof -
  from log_dim_Inr [OF assms(1)] obtain lvals texts where ne: "lvals \<noteq> []"
    and t: "list_all2 (\<lambda>x s. tick_text pw fmt x = Inr s)
       (log_tickvals (Min (set lvals)) (Max (set lvals))) texts"
    and d: "d = \<lparr>label = dim_label p, dvalues = map Num lvals,
          drange = (Num (Min (set lvals)), Num (Max (set lvals))),
          tickvals = Some (map Num (log_tickvals (Min (set lvals)) (Max (set lvals)))),
          ticktext = Some texts\<rparr>"
    by blast
  from ne have "Min (set lvals) \<le> Max (set lvals)"
    by (simp add: Min_le_iff)
  then have "\<forall>t\<in>set (log_tickvals (Min (set lvals)) (Max (set lvals))).
      Min (set lvals) \<le> t \<and> t \<le> Max (set lvals)"
    by (blast dest: log_tickvals_bounds)
  with d assms(2) list_all2_lengthD [OF t] show ?thesis
    by (auto simp: list_all_iff)
qed

lemma cat_dim_ticks:
  assumes "cat_dim p vals = Inr d" and "tickvals d = Some tv"
  shows "list_all (within_range (drange d)) tv
       \<and> (\<exists>tt. ticktext d = Some tt \<and> length tt = length tv)"
proof -
  have "vals \<noteq> []"
    using assms(1) by (auto simp: cat_dim_def py_min_def)
  from cat_dim_eq [OF this, of p] assms show ?thesis
    by (auto simp: list_all_iff length_first_seen)
qed

lemma param_dim_ticks:
  assumes "param_dim il ic lg pw fmt ts p = Inr d" and "tickvals d = Some tv"
  shows "list_all (within_range (drange d)) tv
       \<and> (\<exists>tt. ticktext d = Some tt \<and> length tt = length tv)"
proof (cases "il ts p")
  case True
  with assms(1) have "log_dim lg pw fmt p (collect_values ts p) = Inr d"
    by (simp add: param_dim_def)
  then show ?thesis using assms(2) by (rule log_dim_ticks)
next
  case False
  show ?thesis
  proof (cases "ic ts p")
    case True
    with False assms(1) have "cat_dim p (collect_values ts p) = Inr d"
      by (simp add: param_dim_def)
    then show ?thesis using assms(2) by (rule cat_dim_ticks)
  next
    case f: False
    with False assms show ?thesis
      by (auto simp: param_dim_def num_dim_def Let_def split: sum.splits)
  qed
qed

lemma build_dims_Inr:
  "build_dims il ic lg pw fmt ts acc ps = Inr dims \<Longrightarrow>
     \<exists>ds. dims = acc @ ds \<and> list_all2 (\<lambda>p d. param_dim il ic lg pw fmt ts p = Inr d) ps ds"
proof (induction ps arbitrary: acc)
  case Nil
  then show ?case by simp
next
  case (Cons p ps)
  then obtain d where d: "param_dim il ic lg pw fmt ts p = Inr d"
    and rest: "build_dims il ic lg pw fmt ts (acc @ [d]) ps = Inr dims"
    by (auto split: sum.splits)
  from Cons.IH [OF rest] obtain ds where
    "dims = (acc @ [d]) @ ds" "list_all2 (\<lambda>p d. param_dim il ic lg pw fmt ts p = Inr d) ps ds"
    by blast
  with d have "dims = acc @ (d # ds) \<and> list_all2 (\<lambda>p d. param_dim il ic lg pw fmt ts p = Inr d) (p # ps) (d # ds)"
    by simp
  then show ?case by blast
qed

lemma check_params_Inr: "check_params A ps = Inr u \<longleftrightarrow> set ps \<subseteq> A"
  by (induction ps) auto

lemma find_unknown:
  "\<exists>p\<in>set l. p \<notin> A \<Longrightarrow> \<exists>q. List.find (\<lambda>p. p \<notin> A) l = Some q \<and> q \<in> set l \<and> q \<notin> A"
  by (induction l) auto

lemma check_params_find:
  "List.find (\<lambda>p. p \<notin> A) l = Some q \<Longrightarrow> check_params A l = Inl (unknown_param q)"
  by (induction l) (auto split: if_splits)

lemma select_params_Inr:
  "select_params ts ps = Inr sel \<Longrightarrow> sel = selected_params ts ps \<and> sel \<subseteq> union_params ts"
  by (auto simp: select_params_def selected_params_def Let_def check_params_Inr
      split: option.splits sum.splits)

lemma finite_selected_params: "finite (selected_params ts ps)"
  by (simp add: selected_params_def union_params_def split: option.splits)

lemma set_sorted_params: "set (sorted_params ts ps) = selected_params ts ps"
  by (simp add: sorted_params_def finite_selected_params)

lemma length_sorted_params: "length (sorted_params ts ps) = card (selected_params ts ps)"
  by (simp add: sorted_params_def)

lemma sorted_params_sorted:
  "sorted (sorted_params ts ps) \<and> distinct (sorted_params ts ps)"
  by (simp add: sorted_params_def)

lemma target_dim_eq:
  "ts \<noteq> [] \<Longrightarrow> target_dim name tg ts =
     Inr \<lparr>label = name, dvalues = map (\<lambda>t. Num (tg t)) ts,
          drange = (Num (Min (tg ` set ts)), Num (Max (tg ` set ts))),
          tickvals = None, ticktext = None\<rparr>"
  by (simp add: target_dim_def py_min_eq py_max_eq)

lemma plot_Inr:
  assumes "get_parallel_coordinate_plot il ic lg pw fmt study ps target name = Inr fig"
    and "complete_trials study \<noteq> []"
  shows "\<exists>ds. select_params (complete_trials study) ps = Inr (selected_params (complete_trials study) ps)
     \<and> selected_params (complete_trials study) ps \<subseteq> union_params (complete_trials study)
     \<and> list_all2 (\<lambda>p d. param_dim il ic lg pw fmt (complete_trials study) p = Inr d)
         (sorted_params (complete_trials study) ps) ds
     \<and> fig = \<lparr>data =
            [\<lparr>dimensions =
                \<lparr>label = name, dvalues = map (\<lambda>t. Num (target_of target t)) (complete_trials study),
                 drange = (Num (Min (target_of target ` set (complete_trials study))),
                           Num (Max (target_of target ` set (complete_trials study)))),
                 tickvals = None, ticktext = None\<rparr> # ds,
              labelangle = 30, labelside = ''bottom'',
              line_color = map (\<lambda>t. Num (target_of target t)) (complete_trials study),
              line_colorscale = ''blues'', line_colorbar_title = name, line_showscale = True,
              line_reversescale = reversescale_of study target\<rparr>],
          layout_title = ''Parallel Coordinate Plot''\<rparr>"
proof -
  let ?ts = "complete_trials study"
  let ?d0 = "\<lparr>label = name, dvalues = map (\<lambda>t. Num (target_of target t)) ?ts,
                 drange = (Num (Min (target_of target ` set ?ts)),
                           Num (Max (target_of target ` set ?ts))),
                 tickvals = None, ticktext = None\<rparr>"
  have td: "target_dim name (target_of target) ?ts = Inr ?d0"
    using assms(2) by (rule target_dim_eq)
  from assms obtain sel dims where sel: "select_params ?ts ps = Inr sel"
    and b: "build_dims il ic lg pw fmt ?ts [?d0] (sorted_list_of_set sel) = Inr dims"
    and fig: "fig = \<lparr>data =
            [\<lparr>dimensions = dims, labelangle = 30, labelside = ''bottom'',
              line_color = dvalues (dims ! 0),
              line_colorscale = ''blues'', line_colorbar_title = name, line_showscale = True,
              line_reversescale = reversescale_of study target\<rparr>],
          layout_title = ''Parallel Coordinate Plot''\<rparr>"
    by (auto simp: get_parallel_coordinate_plot_def Let_def td split: sum.splits)
  from select_params_Inr [OF sel] have s: "sel = selected_params ?ts ps" "sel \<subseteq> union_params ?ts"
    by blast+
  from build_dims_Inr [OF b] obtain ds where ds: "dims = [?d0] @ ds"
    "list_all2 (\<lambda>p d. param_dim il ic lg pw fmt ?ts p = Inr d) (sorted_list_of_set sel) ds"
    by blast
  from s have sub: "selected_params ?ts ps \<subseteq> union_params ?ts"
    by simp
  from sel s(1) have sel': "select_params ?ts ps = Inr (selected_params ?ts ps)"
    by simp
  from ds(2) s(1) have l: "list_all2 (\<lambda>p d. param_dim il ic lg pw fmt ?ts p = Inr d) (sorted_params ?ts ps) ds"
    by (simp add: sorted_params_def)
  from fig ds(1) have "fig = \<lparr>data =
            [\<lparr>dimensions = ?d0 # ds, labelangle = 30, labelside = ''bottom'',
              line_color = map (\<lambda>t. Num (target_of target t)) ?ts,
              line_colorscale = ''blues'', line_colorbar_title = name, line_showscale = True,
              line_reversescale = reversescale_of study target\<rparr>],
          layout_title = ''Parallel Coordinate Plot''\<rparr>"
    by simp
  with sel' sub l show ?thesis
    by blast
qed

lemma plot_descriptors:
  assumes "get_parallel_coordinate_plot il ic lg pw fmt study ps target name = Inr fig"
    and "complete_trials study \<noteq> []"
  shows "\<exists>ds. descriptors fig =
            \<lparr>label = name, dvalues = map (\<lambda>t. Num (target_of target t)) (complete_trials study),
             drange = (Num (Min (target_of target ` set (complete_trials study))),
                       Num (Max (target_of target ` set (complete_trials study)))),
             tickvals = None, ticktext = None\<rparr> # ds
          \<and> list_all2 (\<lambda>p d. param_dim il ic lg pw fmt (complete_trials study) p = Inr d)
                (sorted_params (complete_trials study) ps) ds"
proof -
  from plot_Inr [OF assms] obtain ds where
    l: "list_all2 (\<lambda>p d. param_dim il ic lg pw fmt (complete_trials study) p = Inr d)
         (sorted_params (complete_trials study) ps) ds"
    and "descriptors fig =
            \<lparr>label = name, dvalues = map (\<lambda>t. Num (target_of target t)) (complete_trials study),
             drange = (Num (Min (target_of target ` set (complete_trials study))),
                       Num (Max (target_of target ` set (complete_trials study)))),
             tickvals = None, ticktext = None\<rparr> # ds"
    by (auto simp: descriptors_def)
  then show ?thesis by blast
qed

lemma plot_param_dim:
  assumes "get_parallel_coordinate_plot il ic lg pw fmt study ps target name = Inr fig"
    and "complete_trials study \<noteq> []"
    and "i < length (sorted_params (complete_trials study) ps)"
  shows "param_dim il ic lg pw fmt (complete_trials study) (sorted_params (complete_trials study) ps ! i)
           = Inr (descriptors fig ! Suc i)"
    and "sorted_params (complete_trials study) ps ! i \<in> union_params (complete_trials study)"
proof -
  let ?ts = "complete_trials study"
  from plot_descriptors [OF assms(1,2)] obtain d0 ds where
    d: "descriptors fig = d0 # ds"
    and l: "list_all2 (\<lambda>p d. param_dim il ic lg pw fmt ?ts p = Inr d) (sorted_params ?ts ps) ds"
    by blast
  from list_all2_nthD [OF l assms(3)] d
  show "param_dim il ic lg pw fmt ?ts (sorted_params ?ts ps ! i) = Inr (descriptors fig ! Suc i)"
    by simp
  from plot_Inr [OF assms(1,2)] have "selected_params ?ts ps \<subseteq> union_params ?ts"
    by blast
  moreover have "sorted_params ?ts ps ! i \<in> selected_params ?ts ps"
    using assms(3) nth_mem [of i "sorted_params ?ts ps"] by (simp only: set_sorted_params)
  ultimately show "sorted_params ?ts ps ! i \<in> union_params ?ts"
    by blast
qed

lemma plot_param_dim_filter:
  assumes "get_parallel_coordinate_plot il ic lg pw fmt study ps target name = Inr fig"
    and "ts = filter (\<lambda>t. state t = COMPLETE) (trials study)"
    and "ts \<noteq> []"
    and "i < length (sorted_params ts ps)"
    and "p = sorted_params ts ps ! i"
  shows "param_dim il ic lg pw fmt ts p = Inr (descriptors fig ! Suc i)"
proof -
  have ts: "ts = complete_trials study"
    using assms(2) by (simp add: complete_trials_def)
  from assms(3,4) have "complete_trials study \<noteq> []"
    and "i < length (sorted_params (complete_trials study) ps)"
    by (simp_all add: ts)
  from plot_param_dim(1) [OF assms(1) this] show ?thesis
    by (simp add: assms(5) ts)
qed

section \<open>Inputs on which the call returns a figure\<close>

text \<open>
  With a completed trial, requested names that all occur, positive numbers as the
  values of the log-scaled parameters, their logarithms below a bound up to which
  \<^verbatim>\<open>math.pow(10, x)\<close> does not overflow, and numbers as the values of the plain numeric
  parameters, the call raises nothing.
\<close>

lemma pv_min_loop_Num:
  "\<forall>v\<in>set ys. \<exists>r. v = Num r \<Longrightarrow> \<exists>r. pv_min_loop (Num m) ys = Inr (Num r)"
proof (induction ys arbitrary: m)
  case Nil
  then show ?case by simp
next
  case (Cons y ys)
  then obtain r where "y = Num r" by auto
  with Cons show ?case by simp
qed

lemma pv_max_loop_Num:
  "\<forall>v\<in>set ys. \<exists>r. v = Num r \<Longrightarrow> \<exists>r. pv_max_loop (Num m) ys = Inr (Num r)"
proof (induction ys arbitrary: m)
  case Nil
  then show ?case by simp
next
  case (Cons y ys)
  then obtain r where "y = Num r" by auto
  with Cons show ?case by simp
qed

lemma num_dim_succeeds:
  assumes "vals \<noteq> []" and "\<forall>v\<in>set vals. \<exists>r. v = Num r"
  shows "\<exists>d. num_dim p vals = Inr d"
proof -
  from assms obtain m ys where v: "vals = Num m # ys" and ys: "\<forall>v\<in>set ys. \<exists>r. v = Num r"
    by (cases vals) auto
  from pv_min_loop_Num [OF ys, of m] pv_max_loop_Num [OF ys, of m] show ?thesis
    by (auto simp: num_dim_def pv_min_def pv_max_def v)
qed

lemma map_err_log10_succeeds:
  "\<forall>v\<in>set vals. \<exists>r. 0 < r \<and> v = Num r \<and> lg r \<le> B \<Longrightarrow>
     \<exists>ls. map_err (log10 lg) vals = Inr ls \<and> length ls = length vals \<and> (\<forall>l\<in>set ls. l \<le> B)"
  by (induction vals) auto

lemma map_err_tick_text_succeeds:
  "\<forall>x\<in>set tv. \<exists>y. pw x = Some y \<Longrightarrow> \<exists>texts. map_err (tick_text pw fmt) tv = Inr texts"
  by (induction tv) (auto simp: tick_text_def)

lemma log_dim_succeeds:
  assumes "vals \<noteq> []" and "\<forall>v\<in>set vals. \<exists>r. 0 < r \<and> v = Num r \<and> lg r \<le> B"
    and "\<And>x. x \<le> B \<Longrightarrow> \<exists>y. pw x = Some y"
  shows "\<exists>d. log_dim lg pw fmt p vals = Inr d"
proof -
  from map_err_log10_succeeds [OF assms(2)] obtain ls where
    ls: "map_err (log10 lg) vals = Inr ls" "length ls = length vals" "\<forall>l\<in>set ls. l \<le> B"
    by blast
  with assms(1) have ne: "ls \<noteq> []" by auto
  then have le: "Min (set ls) \<le> Max (set ls)" and mx: "Max (set ls) \<le> B"
    using ls(3) by (simp_all add: Min_le_iff)
  have "\<forall>x\<in>set (log_tickvals (Min (set ls)) (Max (set ls))). \<exists>y. pw x = Some y"
  proof
    fix x
    assume "x \<in> set (log_tickvals (Min (set ls)) (Max (set ls)))"
    with le have "x \<le> Max (set ls)"
      by (blast dest: log_tickvals_bounds)
    with mx have "x \<le> B" by simp
    then show "\<exists>y. pw x = Some y" by (rule assms(3))
  qed
  from map_err_tick_text_succeeds [OF this] obtain texts where
    "map_err (tick_text pw fmt) (log_tickvals (Min (set ls)) (Max (set ls))) = Inr texts"
    by blast
  with ls(1) ne show ?thesis
    by (simp add: log_dim_def py_min_eq py_max_eq Let_def)
qed

lemma param_dim_succeeds:
  assumes "p \<in> union_params ts"
    and "il ts p \<Longrightarrow> \<forall>v\<in>set (collect_values ts p). \<exists>r. 0 < r \<and> v = Num r \<and> lg r \<le> B"
    and "\<not> il ts p \<Longrightarrow> \<not> ic ts p \<Longrightarrow> \<forall>v\<in>set (collect_values ts p). \<exists>r. v = Num r"
    and "\<And>x. x \<le> B \<Longrightarrow> \<exists>y. pw x = Some y"
  shows "\<exists>d. param_dim il ic lg pw fmt ts p = Inr d"
proof -
  from assms(1) have ne: "collect_values ts p \<noteq> []"
    by (rule collect_values_nonempty)
  show ?thesis
  proof (cases "il ts p")
    case True
    from assms(2) [OF True]
    have "\<forall>v\<in>set (collect_values ts p). \<exists>r. 0 < r \<and> v = Num r \<and> lg r \<le> B" .
    from log_dim_succeeds [OF ne this assms(4)] True show ?thesis
      by (simp add: param_dim_def)
  next
    case False
    show ?thesis
    proof (cases "ic ts p")
      case True
      with False cat_dim_eq [OF ne, of p] show ?thesis
        by (simp add: param_dim_def)
    next
      case f: False
      with False num_dim_succeeds [OF ne assms(3)] show ?thesis
        by (simp add: param_dim_def)
    qed
  qed
qed

lemma build_dims_succeeds:
  "\<forall>p\<in>set ps. \<exists>d. param_dim il ic lg pw fmt ts p = Inr d \<Longrightarrow>
     \<exists>dims. build_dims il ic lg pw fmt ts acc ps = Inr dims"
proof (induction ps arbitrary: acc)
  case Nil
  then show ?case by simp
next
  case (Cons p ps)
  then obtain d where "param_dim il ic lg pw fmt ts p = Inr d" by auto
  with Cons show ?case by simp
qed

lemma select_params_succeeds:
  "(case ps of None \<Rightarrow> True | Some l \<Rightarrow> set l \<subseteq> union_params ts) \<Longrightarrow>
     select_params ts ps = Inr (selected_params ts ps)"
proof (cases ps)
  case None
  then show ?thesis by (simp add: select_params_def selected_params_def)
next
  case (Some l)
  assume "case ps of None \<Rightarrow> True | Some l \<Rightarrow> set l \<subseteq> union_params ts"
  with Some have "check_params (union_params ts) l = Inr ()"
    by (simp add: check_params_Inr)
  with Some show ?thesis by (simp add: select_params_def selected_params_def)
qed

lemma plot_succeeds:
  assumes "complete_trials study \<noteq> []"
    and "case ps of None \<Rightarrow> True | Some l \<Rightarrow> set l \<subseteq> union_params (complete_trials study)"
    and "\<And>p. p \<in> selected_params (complete_trials study) ps \<Longrightarrow> il (complete_trials study) p \<Longrightarrow>
           \<forall>v\<in>set (collect_values (complete_trials study) p). \<exists>r. 0 < r \<and> v = Num r \<and> lg r \<le> B"
    and "\<And>p. p \<in> selected_params (complete_trials study) ps \<Longrightarrow> \<not> il (complete_trials study) p \<Longrightarrow>
           \<not> ic (complete_trials study) p \<Longrightarrow>
           \<forall>v\<in>set (collect_values (complete_trials study) p). \<exists>r. v = Num r"
    and "\<And>x. x \<le> B \<Longrightarrow> \<exists>y. pw x = Some y"
  shows "\<exists>fig. get_parallel_coordinate_plot il ic lg pw fmt study ps target name = Inr fig"
proof -
  let ?ts = "complete_trials study"
  have sel: "select_params ?ts ps = Inr (selected_params ?ts ps)"
    using assms(2) by (rule select_params_succeeds)
  from select_params_Inr [OF sel] have sub: "selected_params ?ts ps \<subseteq> union_params ?ts"
    by blast
  have "\<forall>p\<in>set (sorted_params ?ts ps). \<exists>d. param_dim il ic lg pw fmt ?ts p = Inr d"
  proof
    fix p
    assume "p \<in> set (sorted_params ?ts ps)"
    then have p: "p \<in> selected_params ?ts ps"
      by (simp only: set_sorted_params)
    with sub have "p \<in> union_params ?ts" by blast
    then show "\<exists>d. param_dim il ic lg pw fmt ?ts p = Inr d"
      using assms(3) [OF p] assms(4) [OF p] assms(5) by (rule param_dim_succeeds)
  qed
  from build_dims_succeeds [OF this] obtain dims where
    "build_dims il ic lg pw fmt ?ts
       [\<lparr>label = name, dvalues = map (\<lambda>t. Num (target_of target t)) ?ts,
         drange = (Num (Min (target_of target ` set ?ts)), Num (Max (target_of target ` set ?ts))),
         tickvals = None, ticktext = None\<rparr>]
       (sorted_params ?ts ps) = Inr dims"
    by blast
  with assms(1) sel show ?thesis
    by (simp add: get_parallel_coordinate_plot_def target_dim_eq sorted_params_def)
qed

section \<open>The examples, evaluated\<close>

lemmas plot_eval =
  get_parallel_coordinate_plot_def complete_trials_def select_params_def
  union_params_def sorted_list_of_set_sort_remdups target_dim_def py_min_def py_max_def target_of_def
  param_dim_def collect_values_def log_dim_def tick_text_def cat_dim_def num_dim_def
  pv_min_def pv_max_def vocab_getitem_def log_tickvals_def py_range_def
  dim_label_def vocab_code_def reversescale_of_def upto.simps less_eq_list_code less_list_code
  Let_def insert_Diff_if

lemmas example_eval =
  example_log10_def example_pow10_def example_fmt3g_def
  float_1e_06_def float_1e_05_def float_1e_04_def float_1e_03_def float_max_def
  float_log10_max_def

lemmas names_eval =
  sorted_params_def selected_params_def union_params_def complete_trials_def
  insert_Diff_if less_eq_list_code less_list_code

lemma example_plot: "get_parallel_coordinate_plot (\<lambda>ts p. p = ''x'') (\<lambda>ts p. p = ''y'') example_log10 example_pow10 example_fmt3g
    example_study None None ''Objective Value'' = Inr example_figure"
  by (simp add: plot_eval example_eval example_study_def example_figure_def)

lemma vocab_plot:
  "get_parallel_coordinate_plot (\<lambda>ts p. False) (\<lambda>ts p. p = ''y'') example_log10 example_pow10 example_fmt3g
     vocab_study None None ''Objective Value'' = Inr vocab_figure"
  by (simp add: plot_eval vocab_study_def vocab_figure_def)

lemma custom_target_plot:
  "get_parallel_coordinate_plot (\<lambda>ts p. False) (\<lambda>ts p. p = ''y'') example_log10 example_pow10 example_fmt3g
     vocab_study None (Some (\<lambda>t. - tvalue t)) ''Loss'' = Inr custom_target_figure"
  by (simp add: plot_eval vocab_study_def custom_target_figure_def)

lemma single_log_plot:
  "get_parallel_coordinate_plot (\<lambda>ts p. True) (\<lambda>ts p. False) example_log10 example_pow10 example_fmt3g
     single_log_study None None ''Objective Value'' = Inr single_log_figure"
  by (simp add: plot_eval example_eval single_log_study_def single_log_figure_def)

lemma small_log_plot:
  "get_parallel_coordinate_plot (\<lambda>ts p. True) (\<lambda>ts p. False) example_log10 example_pow10 example_fmt3g
     small_log_study None None ''Objective Value'' = Inr small_log_figure"
  by (simp add: plot_eval example_eval small_log_study_def small_log_figure_def)

lemma overflow_plot:
  "get_parallel_coordinate_plot (\<lambda>ts p. True) (\<lambda>ts p. False) example_log10 example_pow10 example_fmt3g
     overflow_study None None ''Objective Value'' = Inl OverflowError"
  by (simp add: plot_eval example_eval overflow_study_def)

lemma sparse_plot:
  "get_parallel_coordinate_plot (\<lambda>ts p. False) (\<lambda>ts p. p = ''y'') example_log10 example_pow10 example_fmt3g
     sparse_study None None ''Objective Value'' = Inr sparse_figure"
  by (simp add: plot_eval sparse_study_def sparse_figure_def)

lemma long_name_plot:
  "get_parallel_coordinate_plot (\<lambda>ts p. False) (\<lambda>ts p. False) example_log10 example_pow10 example_fmt3g
     long_name_study None None ''Objective Value'' = Inr long_name_figure"
  by (simp add: plot_eval long_name_study_def long_name_figure_def)

lemma example_sorted_params: "sorted_params (complete_trials example_study) None = [''x'', ''y'']"
  by (simp add: names_eval example_study_def)

lemma vocab_sorted_params: "sorted_params (complete_trials vocab_study) None = [''y'']"
  by (simp add: names_eval vocab_study_def)

lemma small_log_sorted_params: "sorted_params (complete_trials small_log_study) None = [''x'']"
  by (simp add: names_eval small_log_study_def)

lemma sparse_sorted_params: "sorted_params (complete_trials sparse_study) None = [''x'', ''y'']"
  by (simp add: names_eval sparse_study_def)

lemma long_name_sorted_params:
  "sorted_params (complete_trials long_name_study) None =
     [''exactly_twenty_chars'', ''nineteen_characters'', ''this_is_a_very_long_parameter_name'']"
  by (simp add: names_eval long_name_study_def)

lemma vocab_raw:
  "List.map_filter (\<lambda>t. map_of (params t) ''y'') (complete_trials vocab_study)
     = [Str ''a'', Str ''b'', Str ''a'', Str ''c'']"
  by (simp add: List.map_filter_def complete_trials_def vocab_study_def)

section \<open>The claims\<close>

text \<open>
  Claim C1. When the call returns a figure, the axis of a parameter \<open>p\<close> that takes the
  categorical branch (\<open>p\<close> is not log-scaled and is categorical) is built from the raw
  values of \<open>p\<close> over the completed trials, in trial order: each distinct raw value has
  as its code its position in the first-seen order, counted from 0; the values are the
  raw values replaced by their codes; the range is \<open>(0, codeCount - 1)\<close> with
  \<open>codeCount\<close> the number of distinct raw values; the tick positions are
  \<open>0, ..., codeCount - 1\<close>; the tick texts are the distinct raw values in first-seen
  order.
\<close>

theorem C1_categorical_axis:
  assumes "get_parallel_coordinate_plot il ic lg pw fmt study ps target name = Inr fig"
    and "complete_trials study \<noteq> []"
    and "i < length (sorted_params (complete_trials study) ps)"
    and "p = sorted_params (complete_trials study) ps ! i"
    and "\<not> il (complete_trials study) p"
    and "ic (complete_trials study) p"
    and "raw = List.map_filter (\<lambda>t. map_of (params t) p) (complete_trials study)"
  shows "descriptors fig ! Suc i =
           \<lparr>label = dim_label p,
            dvalues = map (\<lambda>v. Num (real (code_of (first_seen raw) v))) raw,
            drange = (Num 0, Num (real (card (set raw) - 1))),
            tickvals = Some (map (\<lambda>c. Num (real c)) [0..<card (set raw)]),
            ticktext = Some (first_seen raw)\<rparr>
         \<and> distinct (first_seen raw) \<and> set (first_seen raw) = set raw
         \<and> length (first_seen raw) = card (set raw)"
proof -
  let ?ts = "complete_trials study"
  have raw: "raw = collect_values ?ts p"
    using assms(7) by (simp add: collect_values_eq)
  from plot_param_dim [OF assms(1,2,3)] assms(4)
  have pd: "param_dim il ic lg pw fmt ?ts p = Inr (descriptors fig ! Suc i)"
    and mem: "p \<in> union_params ?ts"
    by simp_all
  from mem have "raw \<noteq> []"
    unfolding raw by (rule collect_values_nonempty)
  from cat_dim_eq [OF this, of p] pd assms(5,6) raw
  have "descriptors fig ! Suc i =
           \<lparr>label = dim_label p,
            dvalues = map (\<lambda>v. Num (real (code_of (first_seen raw) v))) raw,
            drange = (Num 0, Num (real (card (set raw) - 1))),
            tickvals = Some (map (\<lambda>c. Num (real c)) [0..<card (set raw)]),
            ticktext = Some (first_seen raw)\<rparr>"
    by (simp add: param_dim_def)
  then show ?thesis
    by (simp add: distinct_first_seen set_first_seen length_first_seen)
qed

theorem C1_categorical_axis_witness:
  "get_parallel_coordinate_plot (\<lambda>ts p. False) (\<lambda>ts p. p = ''y'') example_log10 example_pow10 example_fmt3g
     vocab_study None None ''Objective Value'' = Inr vocab_figure
   \<and> descriptors vocab_figure ! 1 =
       \<lparr>label = ''y'', dvalues = [Num 0, Num 1, Num 0, Num 2],
        drange = (Num 0, Num 2), tickvals = Some [Num 0, Num 1, Num 2],
        ticktext = Some [Str ''a'', Str ''b'', Str ''c'']\<rparr>"
proof -
  have ne: "complete_trials vocab_study \<noteq> []"
    by (simp add: complete_trials_def vocab_study_def)
  have i: "0 < length (sorted_params (complete_trials vocab_study) None)"
    and p: "''y'' = sorted_params (complete_trials vocab_study) None ! 0"
    by (simp_all add: vocab_sorted_params)
  have nl: "\<not> (\<lambda>ts p. False) (complete_trials vocab_study) ''y''"
    and c: "(\<lambda>ts p. p = ''y'') (complete_trials vocab_study) ''y''"
    by simp_all
  from C1_categorical_axis [OF vocab_plot ne i p nl c vocab_raw [symmetric]]
  have "descriptors vocab_figure ! Suc 0 =
       \<lparr>label = ''y'', dvalues = [Num 0, Num 1, Num 0, Num 2],
        drange = (Num 0, Num 2), tickvals = Some [Num 0, Num 1, Num 2],
        ticktext = Some [Str ''a'', Str ''b'', Str ''c'']\<rparr>"
    by (simp add: dim_label_def code_of_def upt_conv_Cons)
  with vocab_plot show ?thesis by simp
qed

text \<open>
  Claim C2, amended. When the call returns a figure, the axis of a log-scaled parameter
  \<open>p\<close> has as values what \<^verbatim>\<open>math.log10\<close> returns on each raw value of the completed
  trials, in trial order (the sequence is not empty and every raw value is a positive
  number); its range is the minimum and the maximum of these; its tick positions are
  the integers \<^verbatim>\<open>range(ceil(minValue), ceil(maxValue))\<close>, with the minimum in front when
  it is not one of these integers, and the maximum behind when it is not one of these
  integers and differs from the minimum; the text of each tick \<open>x\<close> is what
  \<^verbatim>\<open>math.pow(10, x)\<close> returns, formatted. The statement holds for whatever floats the
  two library functions return. As the claim words it (the maximum appended whenever it
  is not one of the integers), a parameter whose values are all equal would get the
  same tick twice; the source gives it one tick, as a study of one trial shows.
\<close>

theorem C2_log_axis:
  assumes "get_parallel_coordinate_plot il ic lg pw fmt study ps target name = Inr fig"
    and "ts = filter (\<lambda>t. state t = COMPLETE) (trials study)"
    and "ts \<noteq> []"
    and "i < length (sorted_params ts ps)"
    and "p = sorted_params ts ps ! i"
    and "il ts p"
    and "raw = map (\<lambda>t. the (map_of (params t) p)) (filter (\<lambda>t. map_of (params t) p \<noteq> None) ts)"
  shows "\<exists>lvals texts.
           list_all2 (\<lambda>v l. \<exists>r. v = Num r \<and> 0 < r \<and> l = lg r) raw lvals \<and> lvals \<noteq> [] \<and>
           dvalues (descriptors fig ! Suc i) = map Num lvals \<and>
           drange (descriptors fig ! Suc i) = (Num (Min (set lvals)), Num (Max (set lvals))) \<and>
           tickvals (descriptors fig ! Suc i) =
             Some (map Num (amended_log_tickvals (Min (set lvals)) (Max (set lvals)))) \<and>
           ticktext (descriptors fig ! Suc i) = Some (map Str texts) \<and>
           list_all2 (\<lambda>x s. \<exists>y. pw x = Some y \<and> s = fmt y)
             (amended_log_tickvals (Min (set lvals)) (Max (set lvals))) texts"
proof -
  have raw: "raw = collect_values ts p"
    using assms(7) by (simp add: collect_values_eq List.map_filter_def comp_def)
  from plot_param_dim_filter [OF assms(1,2,3,4,5)] assms(6)
  have "log_dim lg pw fmt p raw = Inr (descriptors fig ! Suc i)"
    by (simp add: param_dim_def raw)
  from log_dim_Inr [OF this] obtain lvals tt where
    l: "list_all2 (\<lambda>v l. log10 lg v = Inr l) raw lvals" "lvals \<noteq> []"
    and t: "list_all2 (\<lambda>x s. tick_text pw fmt x = Inr s)
       (log_tickvals (Min (set lvals)) (Max (set lvals))) tt"
    and d: "descriptors fig ! Suc i = \<lparr>label = dim_label p, dvalues = map Num lvals,
          drange = (Num (Min (set lvals)), Num (Max (set lvals))),
          tickvals = Some (map Num (log_tickvals (Min (set lvals)) (Max (set lvals)))),
          ticktext = Some tt\<rparr>"
    by blast
  from tick_texts_strings [OF t] obtain texts where
    texts: "tt = map Str texts"
      "list_all2 (\<lambda>x s. \<exists>y. pw x = Some y \<and> s = fmt y)
         (log_tickvals (Min (set lvals)) (Max (set lvals))) texts"
    by blast
  from l(1) have "list_all2 (\<lambda>v l. \<exists>r. v = Num r \<and> 0 < r \<and> l = lg r) raw lvals"
    by (simp add: log10_Inr)
  with l(2) d texts show ?thesis
    by (auto simp: log_tickvals_amended)
qed

theorem C2_log_axis_witness:
  "get_parallel_coordinate_plot (\<lambda>ts p. p = ''x'') (\<lambda>ts p. p = ''y'')
     example_log10 example_pow10 example_fmt3g example_study None None ''Objective Value''
     = Inr example_figure
   \<and> dvalues (descriptors example_figure ! 1) = [Num 0, Num 1, Num 2]
   \<and> drange (descriptors example_figure ! 1) = (Num 0, Num 2)
   \<and> tickvals (descriptors example_figure ! 1) = Some [Num 0, Num 1, Num 2]
   \<and> ticktext (descriptors example_figure ! 1) = Some [Str ''1'', Str ''10'', Str ''100'']
   \<and> get_parallel_coordinate_plot (\<lambda>ts p. True) (\<lambda>ts p. False)
       example_log10 example_pow10 example_fmt3g small_log_study None None ''Objective Value''
       = Inr small_log_figure
   \<and> dvalues (descriptors small_log_figure ! 1) = [Num (- 6), Num (- 3)]
   \<and> drange (descriptors small_log_figure ! 1) = (Num (- 6), Num (- 3))
   \<and> tickvals (descriptors small_log_figure ! 1) = Some [Num (- 6), Num (- 5), Num (- 4), Num (- 3)]
   \<and> ticktext (descriptors small_log_figure ! 1)
       = Some [Str ''1e-06'', Str ''1e-05'', Str ''0.0001'', Str ''0.001'']"
proof -
  let ?ts = "filter (\<lambda>t. state t = COMPLETE) (trials example_study)"
  have ts: "?ts = complete_trials example_study"
    by (simp add: complete_trials_def)
  have ne: "?ts \<noteq> []"
    by (simp add: example_study_def)
  have i: "0 < length (sorted_params ?ts None)"
    and p: "''x'' = sorted_params ?ts None ! 0"
    by (simp_all only: ts example_sorted_params) simp_all
  have l: "(\<lambda>ts p. p = ''x'') ?ts ''x''"
    by simp
  have raw: "[Num 1, Num 10, Num 100] =
      map (\<lambda>t. the (map_of (params t) ''x'')) (filter (\<lambda>t. map_of (params t) ''x'' \<noteq> None) ?ts)"
    by (simp add: example_study_def)
  from C2_log_axis [OF example_plot refl ne i p l raw] obtain lvals texts where
    lv: "list_all2 (\<lambda>v l. \<exists>r. v = Num r \<and> 0 < r \<and> l = example_log10 r)
           [Num 1, Num 10, Num 100] lvals"
    and d: "dvalues (descriptors example_figure ! Suc 0) = map Num lvals"
      "drange (descriptors example_figure ! Suc 0) = (Num (Min (set lvals)), Num (Max (set lvals)))"
      "tickvals (descriptors example_figure ! Suc 0) =
         Some (map Num (amended_log_tickvals (Min (set lvals)) (Max (set lvals))))"
      "ticktext (descriptors example_figure ! Suc 0) = Some (map Str texts)"
    and tx: "list_all2 (\<lambda>x s. \<exists>y. example_pow10 x = Some y \<and> s = example_fmt3g y)
           (amended_log_tickvals (Min (set lvals)) (Max (set lvals))) texts"
    by blast
  from lv have lvals: "lvals = [0, 1, 2]"
    by (auto simp: list_all2_Cons1 example_eval)
  have t: "amended_log_tickvals 0 2 = [0, 1, 2]"
    by (simp add: amended_log_tickvals_def py_range_def upto.simps)
  from tx have texts: "texts = [''1'', ''10'', ''100'']"
    by (auto simp: lvals t list_all2_Cons1 example_eval)
  from d have a: "dvalues (descriptors example_figure ! 1) = [Num 0, Num 1, Num 2]"
    "drange (descriptors example_figure ! 1) = (Num 0, Num 2)"
    "tickvals (descriptors example_figure ! 1) = Some [Num 0, Num 1, Num 2]"
    "ticktext (descriptors example_figure ! 1) = Some [Str ''1'', Str ''10'', Str ''100'']"
    by (simp_all add: lvals t texts)
  let ?ss = "filter (\<lambda>t. state t = COMPLETE) (trials small_log_study)"
  have ss: "?ss = complete_trials small_log_study"
    by (simp add: complete_trials_def)
  have ne': "?ss \<noteq> []"
    by (simp add: small_log_study_def)
  have i': "0 < length (sorted_params ?ss None)"
    and p': "''x'' = sorted_params ?ss None ! 0"
    by (simp_all only: ss small_log_sorted_params) simp_all
  have l': "(\<lambda>ts p. True) ?ss ''x''"
    by simp
  have raw': "[Num float_1e_06, Num float_1e_03] =
      map (\<lambda>t. the (map_of (params t) ''x'')) (filter (\<lambda>t. map_of (params t) ''x'' \<noteq> None) ?ss)"
    by (simp add: small_log_study_def)
  from C2_log_axis [OF small_log_plot refl ne' i' p' l' raw'] obtain lvals' texts' where
    lv': "list_all2 (\<lambda>v l. \<exists>r. v = Num r \<and> 0 < r \<and> l = example_log10 r)
           [Num float_1e_06, Num float_1e_03] lvals'"
    and d': "dvalues (descriptors small_log_figure ! Suc 0) = map Num lvals'"
      "drange (descriptors small_log_figure ! Suc 0) = (Num (Min (set lvals')), Num (Max (set lvals')))"
      "tickvals (descriptors small_log_figure ! Suc 0) =
         Some (map Num (amended_log_tickvals (Min (set lvals')) (Max (set lvals'))))"
      "ticktext (descriptors small_log_figure ! Suc 0) = Some (map Str texts')"
    and tx': "list_all2 (\<lambda>x s. \<exists>y. example_pow10 x = Some y \<and> s = example_fmt3g y)
           (amended_log_tickvals (Min (set lvals')) (Max (set lvals'))) texts'"
    by blast
  from lv' have lvals': "lvals' = [- 6, - 3]"
    by (auto simp: list_all2_Cons1 example_eval)
  have t': "amended_log_tickvals (- 6) (- 3) = [- 6, - 5, - 4, - 3]"
    by (simp add: amended_log_tickvals_def py_range_def upto.simps)
  from tx' have texts': "texts' = [''1e-06'', ''1e-05'', ''0.0001'', ''0.001'']"
    by (auto simp: lvals' t' list_all2_Cons1 example_eval)
  from d' have b: "dvalues (descriptors small_log_figure ! 1) = [Num (- 6), Num (- 3)]"
    "drange (descriptors small_log_figure ! 1) = (Num (- 6), Num (- 3))"
    "tickvals (descriptors small_log_figure ! 1) = Some [Num (- 6), Num (- 5), Num (- 4), Num (- 3)]"
    "ticktext (descriptors small_log_figure ! 1)
       = Some [Str ''1e-06'', Str ''1e-05'', Str ''0.0001'', Str ''0.001'']"
    by (simp_all add: lvals' t' texts')
  from example_plot small_log_plot a b show ?thesis
    by (simp only: simp_thms)
qed

theorem C2_claimed_tickvals_counterexample:
  "get_parallel_coordinate_plot (\<lambda>ts p. True) (\<lambda>ts p. False)
     example_log10 example_pow10 example_fmt3g single_log_study None None ''Objective Value''
     = Inr single_log_figure
   \<and> map_err (log10 example_log10) (collect_values (complete_trials single_log_study) ''x'')
       = Inr [1]
   \<and> tickvals (descriptors single_log_figure ! 1) = Some [Num 1]
   \<and> claimed_log_tickvals (Min (set [1])) (Max (set [1])) = [1, 1]
   \<and> tickvals (descriptors single_log_figure ! 1)
       \<noteq> Some (map Num (claimed_log_tickvals (Min (set [1])) (Max (set [1]))))"
proof -
  have "map_err (log10 example_log10) (collect_values (complete_trials single_log_study) ''x'')
      = Inr [1]"
    by (simp add: collect_values_def complete_trials_def single_log_study_def example_eval)
  moreover have "tickvals (descriptors single_log_figure ! 1) = Some [Num 1]"
    by (simp add: single_log_figure_def descriptors_def)
  moreover have "claimed_log_tickvals (Min (set [1])) (Max (set [1])) = [1, 1]"
    by (simp add: claimed_log_tickvals_def py_range_def upto.simps)
  ultimately show ?thesis
    using single_log_plot by simp
qed

text \<open>
  Claim C3. When the call returns a figure for a study with a completed trial, the list
  of descriptors has one element more than the selected parameter set; its first element
  is the axis of the target: the given name as label, as values the target function
  the caller gave, or the value of the trial when none was given, applied to each
  completed trial in trial order, the minimum and the maximum of these as range, and no
  ticks; the other elements are the axes of the selected names, one each, in sorted
  order without repetition.
\<close>

theorem C3_target_axis_first:
  assumes "get_parallel_coordinate_plot il ic lg pw fmt study ps target name = Inr fig"
    and "ts = filter (\<lambda>t. state t = COMPLETE) (trials study)"
    and "ts \<noteq> []"
  shows "length (descriptors fig) = 1 + card (selected_params ts ps)
       \<and> label (descriptors fig ! 0) = name
       \<and> (\<forall>f. target = Some f \<longrightarrow>
             dvalues (descriptors fig ! 0) = map (\<lambda>t. Num (f t)) ts
           \<and> drange (descriptors fig ! 0) =
               (Num (Min (set (map f ts))), Num (Max (set (map f ts)))))
       \<and> (target = None \<longrightarrow>
             dvalues (descriptors fig ! 0) = map (\<lambda>t. Num (tvalue t)) ts
           \<and> drange (descriptors fig ! 0) =
               (Num (Min (set (map tvalue ts))), Num (Max (set (map tvalue ts)))))
       \<and> tickvals (descriptors fig ! 0) = None \<and> ticktext (descriptors fig ! 0) = None
       \<and> list_all2 (\<lambda>p d. param_dim il ic lg pw fmt ts p = Inr d \<and> label d = dim_label p)
           (sorted_params ts ps) (tl (descriptors fig))
       \<and> sorted (sorted_params ts ps) \<and> distinct (sorted_params ts ps)
       \<and> set (sorted_params ts ps) = selected_params ts ps"
proof -
  have ts: "complete_trials study = ts"
    using assms(2) by (simp add: complete_trials_def)
  from plot_descriptors [OF assms(1)] assms(3) obtain ds where
    d: "descriptors fig =
            \<lparr>label = name, dvalues = map (\<lambda>t. Num (target_of target t)) ts,
             drange = (Num (Min (target_of target ` set ts)), Num (Max (target_of target ` set ts))),
             tickvals = None, ticktext = None\<rparr> # ds"
    and l: "list_all2 (\<lambda>p d. param_dim il ic lg pw fmt ts p = Inr d) (sorted_params ts ps) ds"
    by (auto simp: ts)
  from l have len: "length ds = length (sorted_params ts ps)"
    by (simp add: list_all2_lengthD)
  from l have l': "list_all2 (\<lambda>p d. param_dim il ic lg pw fmt ts p = Inr d \<and> label d = dim_label p)
      (sorted_params ts ps) ds"
    by (rule list_all2_mono) (simp add: dim_label_param_dim)
  show ?thesis
    using d len l' sorted_params_sorted [of ts ps]
    by (simp add: length_sorted_params set_sorted_params target_of_def)
qed

theorem C3_target_axis_first_witness:
  "get_parallel_coordinate_plot (\<lambda>ts p. p = ''x'') (\<lambda>ts p. p = ''y'')
     example_log10 example_pow10 example_fmt3g example_study None None ''Objective Value''
     = Inr example_figure
   \<and> filter (\<lambda>t. state t = COMPLETE) (trials example_study) =
       [\<lparr>state = COMPLETE, params = [(''x'', Num 1), (''y'', Str ''a'')], tvalue = 5\<rparr>,
        \<lparr>state = COMPLETE, params = [(''x'', Num 10), (''y'', Str ''b'')], tvalue = 3\<rparr>,
        \<lparr>state = COMPLETE, params = [(''x'', Num 100), (''y'', Str ''a'')], tvalue = 9\<rparr>]
   \<and> length (descriptors example_figure) = 3
   \<and> label (descriptors example_figure ! 0) = ''Objective Value''
   \<and> dvalues (descriptors example_figure ! 0) = [Num 5, Num 3, Num 9]
   \<and> drange (descriptors example_figure ! 0) = (Num 3, Num 9)
   \<and> tickvals (descriptors example_figure ! 0) = None
   \<and> map label (tl (descriptors example_figure)) = [''x'', ''y'']
   \<and> get_parallel_coordinate_plot (\<lambda>ts p. False) (\<lambda>ts p. p = ''y'')
       example_log10 example_pow10 example_fmt3g vocab_study None (Some (\<lambda>t. - tvalue t)) ''Loss''
       = Inr custom_target_figure
   \<and> label (descriptors custom_target_figure ! 0) = ''Loss''
   \<and> dvalues (descriptors custom_target_figure ! 0) = [Num (- 1), Num (- 2), Num (- 3), Num (- 4)]
   \<and> drange (descriptors custom_target_figure ! 0) = (Num (- 4), Num (- 1))"
proof -
  let ?ts = "filter (\<lambda>t. state t = COMPLETE) (trials example_study)"
  have e: "?ts =
       [\<lparr>state = COMPLETE, params = [(''x'', Num 1), (''y'', Str ''a'')], tvalue = 5\<rparr>,
        \<lparr>state = COMPLETE, params = [(''x'', Num 10), (''y'', Str ''b'')], tvalue = 3\<rparr>,
        \<lparr>state = COMPLETE, params = [(''x'', Num 100), (''y'', Str ''a'')], tvalue = 9\<rparr>]"
    by (simp add: example_study_def)
  have ts: "?ts = complete_trials example_study"
    by (simp add: complete_trials_def)
  have ne: "?ts \<noteq> []"
    by (simp add: example_study_def)
  have sp: "sorted_params ?ts None = [''x'', ''y'']"
    by (simp only: ts example_sorted_params)
  have c: "card (selected_params ?ts None) = 2"
    using length_sorted_params [of ?ts None] by (simp only: sp) simp
  have tg: "map (\<lambda>t. Num (tvalue t)) ?ts = [Num 5, Num 3, Num 9]"
    and mn: "Min (set (map tvalue ?ts)) = 3"
    and mx: "Max (set (map tvalue ?ts)) = 9"
    by (simp_all add: example_study_def)
  from C3_target_axis_first [OF example_plot refl ne]
  have "length (descriptors example_figure) = 3"
    and "label (descriptors example_figure ! 0) = ''Objective Value''"
    and "dvalues (descriptors example_figure ! 0) = [Num 5, Num 3, Num 9]"
    and "drange (descriptors example_figure ! 0) = (Num 3, Num 9)"
    and "tickvals (descriptors example_figure ! 0) = None"
    and "list_all2 (\<lambda>p d. param_dim (\<lambda>ts p. p = ''x'') (\<lambda>ts p. p = ''y'')
            example_log10 example_pow10 example_fmt3g ?ts p = Inr d \<and> label d = dim_label p)
          [''x'', ''y''] (tl (descriptors example_figure))"
    by (simp_all only: c sp tg mn mx simp_thms)
  then have a: "length (descriptors example_figure) = 3"
    "label (descriptors example_figure ! 0) = ''Objective Value''"
    "dvalues (descriptors example_figure ! 0) = [Num 5, Num 3, Num 9]"
    "drange (descriptors example_figure ! 0) = (Num 3, Num 9)"
    "tickvals (descriptors example_figure ! 0) = None"
    "map label (tl (descriptors example_figure)) = [''x'', ''y'']"
    by (auto simp: list_all2_Cons1 dim_label_def)
  let ?vs = "filter (\<lambda>t. state t = COMPLETE) (trials vocab_study)"
  have nv: "?vs \<noteq> []"
    by (simp add: vocab_study_def)
  have tg': "map (\<lambda>t. Num (- tvalue t)) ?vs = [Num (- 1), Num (- 2), Num (- 3), Num (- 4)]"
    and mn': "Min (set (map (\<lambda>t. - tvalue t) ?vs)) = - 4"
    and mx': "Max (set (map (\<lambda>t. - tvalue t) ?vs)) = - 1"
    by (simp_all add: vocab_study_def)
  from C3_target_axis_first [OF custom_target_plot refl nv]
  have "label (descriptors custom_target_figure ! 0) = ''Loss''"
    and "\<forall>f. (\<lambda>t. - tvalue t) = f \<longrightarrow>
             dvalues (descriptors custom_target_figure ! 0) = map (\<lambda>t. Num (f t)) ?vs
           \<and> drange (descriptors custom_target_figure ! 0) =
               (Num (Min (set (map f ?vs))), Num (Max (set (map f ?vs))))"
    by simp_all
  then have b: "label (descriptors custom_target_figure ! 0) = ''Loss''"
    "dvalues (descriptors custom_target_figure ! 0) = [Num (- 1), Num (- 2), Num (- 3), Num (- 4)]"
    "drange (descriptors custom_target_figure ! 0) = (Num (- 4), Num (- 1))"
    by (simp_all only: tg' mn' mx' simp_thms)
  from example_plot custom_target_plot e a b show ?thesis
    by (simp only: simp_thms)
qed

text \<open>
  Claim C4. With a completed trial and an explicit list of names of which one is the
  name of no parameter of any completed trial, the call raises \<^verbatim>\<open>ValueError\<close>: no figure
  is returned, and the message names the first such name of the list.
\<close>

theorem C4_unknown_parameter:
  assumes "complete_trials study \<noteq> []"
    and "\<exists>p\<in>set l. p \<notin> union_params (complete_trials study)"
  shows "\<exists>q. List.find (\<lambda>p. p \<notin> union_params (complete_trials study)) l = Some q
           \<and> q \<in> set l \<and> q \<notin> union_params (complete_trials study)
           \<and> get_parallel_coordinate_plot il ic lg pw fmt study (Some l) target name =
               Inl (ValueError (''Parameter '' @ q @ '' does not exist in your study.''))"
proof -
  from find_unknown [OF assms(2)] obtain q where
    q: "List.find (\<lambda>p. p \<notin> union_params (complete_trials study)) l = Some q"
      "q \<in> set l" "q \<notin> union_params (complete_trials study)"
    by blast
  from check_params_find [OF q(1)] assms(1)
  have "get_parallel_coordinate_plot il ic lg pw fmt study (Some l) target name = Inl (unknown_param q)"
    by (simp add: get_parallel_coordinate_plot_def select_params_def)
  with q show ?thesis
    by (auto simp: unknown_param_def)
qed

theorem C4_unknown_parameter_witness:
  "get_parallel_coordinate_plot (\<lambda>ts p. p = ''x'') (\<lambda>ts p. p = ''y'') example_log10 example_pow10 example_fmt3g
     example_study (Some [''x'', ''z'', ''w'']) None ''Objective Value''
     = Inl (ValueError ''Parameter z does not exist in your study.'')
   \<and> ''z'' \<notin> union_params (complete_trials example_study)
   \<and> ''w'' \<notin> union_params (complete_trials example_study)
   \<and> ''x'' \<in> union_params (complete_trials example_study)"
proof -
  have ne: "complete_trials example_study \<noteq> []"
    by (simp add: complete_trials_def example_study_def)
  have u: "union_params (complete_trials example_study) = {''x'', ''y''}"
    by (auto simp: union_params_def complete_trials_def example_study_def)
  have ex: "\<exists>p\<in>set [''x'', ''z'', ''w'']. p \<notin> union_params (complete_trials example_study)"
    by (simp add: u)
  from C4_unknown_parameter [OF ne ex, of "\<lambda>ts p. p = ''x''" "\<lambda>ts p. p = ''y''" example_log10 example_pow10 example_fmt3g
      None "''Objective Value''"]
  show ?thesis
    by (simp add: u)
qed

text \<open>
  Claim C5. The values of the axis of a parameter \<open>p\<close> are, in trial order, the encoded
  raw values of the completed trials that have \<open>p\<close>, one for each such trial and none
  for a trial without \<open>p\<close> or a trial that is not complete: the value itself on a plain
  numeric axis, what \<^verbatim>\<open>math.log10\<close> returns on it on a log-scaled axis, its code on a
  categorical axis. The axis of the target has one value for each completed trial, in
  trial order, so the axis of a parameter is at most as long as that of the target, and
  a shorter one is no error.
\<close>

theorem C5_missing_values_skipped:
  assumes "get_parallel_coordinate_plot il ic lg pw fmt study ps target name = Inr fig"
    and "ts = filter (\<lambda>t. state t = COMPLETE) (trials study)"
    and "ts \<noteq> []"
    and "i < length (sorted_params ts ps)"
    and "p = sorted_params ts ps ! i"
    and "having = filter (\<lambda>t. map_of (params t) p \<noteq> None) ts"
    and "raw = map (\<lambda>t. the (map_of (params t) p)) having"
  shows "dvalues (descriptors fig ! Suc i) =
           map (\<lambda>v. if il ts p then (case v of Num r \<Rightarrow> Num (lg r) | Str s \<Rightarrow> v)
                    else if ic ts p then Num (real (code_of (first_seen raw) v))
                    else v) raw
       \<and> length (dvalues (descriptors fig ! Suc i)) = length having
       \<and> dvalues (descriptors fig ! 0) =
           map (\<lambda>t. Num (case target of None \<Rightarrow> tvalue t | Some f \<Rightarrow> f t)) ts
       \<and> length (dvalues (descriptors fig ! 0)) = length ts
       \<and> length (dvalues (descriptors fig ! Suc i)) \<le> length (dvalues (descriptors fig ! 0))"
proof -
  have ts: "complete_trials study = ts"
    using assms(2) by (simp add: complete_trials_def)
  have raw: "collect_values ts p = raw"
    using assms(6,7) by (simp add: collect_values_eq List.map_filter_def comp_def)
  from param_dim_values [OF plot_param_dim_filter [OF assms(1,2,3,4,5)]]
  have v: "dvalues (descriptors fig ! Suc i) =
           map (\<lambda>v. if il ts p then (case v of Num r \<Rightarrow> Num (lg r) | Str s \<Rightarrow> v)
                    else if ic ts p then Num (real (code_of (first_seen raw) v))
                    else v) raw"
    by (simp only: raw)
  then have n: "length (dvalues (descriptors fig ! Suc i)) = length having"
    by (simp add: assms(7))
  from plot_descriptors [OF assms(1)] assms(3)
  have t: "dvalues (descriptors fig ! 0) =
      map (\<lambda>t. Num (case target of None \<Rightarrow> tvalue t | Some f \<Rightarrow> f t)) ts"
    by (auto simp: ts target_of_def split: option.splits)
  from v n t show ?thesis
    by (simp add: assms(6))
qed

theorem C5_missing_values_skipped_witness:
  "get_parallel_coordinate_plot (\<lambda>ts p. False) (\<lambda>ts p. p = ''y'')
     example_log10 example_pow10 example_fmt3g sparse_study None None ''Objective Value''
     = Inr sparse_figure
   \<and> filter (\<lambda>t. state t = COMPLETE) (trials sparse_study) =
       [\<lparr>state = COMPLETE, params = [(''x'', Num 1), (''y'', Str ''a'')], tvalue = 5\<rparr>,
        \<lparr>state = COMPLETE, params = [(''x'', Num 2)], tvalue = 3\<rparr>,
        \<lparr>state = COMPLETE, params = [(''x'', Num 3), (''y'', Str ''b'')], tvalue = 9\<rparr>]
   \<and> dvalues (descriptors sparse_figure ! 1) = [Num 1, Num 2, Num 3]
   \<and> dvalues (descriptors sparse_figure ! 2) = [Num 0, Num 1]
   \<and> dvalues (descriptors sparse_figure ! 0) = [Num 5, Num 3, Num 9]"
proof -
  let ?ts = "filter (\<lambda>t. state t = COMPLETE) (trials sparse_study)"
  have e: "?ts =
       [\<lparr>state = COMPLETE, params = [(''x'', Num 1), (''y'', Str ''a'')], tvalue = 5\<rparr>,
        \<lparr>state = COMPLETE, params = [(''x'', Num 2)], tvalue = 3\<rparr>,
        \<lparr>state = COMPLETE, params = [(''x'', Num 3), (''y'', Str ''b'')], tvalue = 9\<rparr>]"
    by (simp add: sparse_study_def)
  have ts: "?ts = complete_trials sparse_study"
    by (simp add: complete_trials_def)
  have ne: "?ts \<noteq> []"
    by (simp add: sparse_study_def)
  have sp: "sorted_params ?ts None = [''x'', ''y'']"
    by (simp only: ts sparse_sorted_params)
  have i: "0 < length (sorted_params ?ts None)" "1 < length (sorted_params ?ts None)"
    and p: "''x'' = sorted_params ?ts None ! 0" "''y'' = sorted_params ?ts None ! 1"
    by (simp_all only: sp) simp_all
  have rx: "map (\<lambda>t. the (map_of (params t) ''x''))
      (filter (\<lambda>t. map_of (params t) ''x'' \<noteq> None) ?ts) = [Num 1, Num 2, Num 3]"
    and ry: "map (\<lambda>t. the (map_of (params t) ''y''))
      (filter (\<lambda>t. map_of (params t) ''y'' \<noteq> None) ?ts) = [Str ''a'', Str ''b'']"
    and tg: "map (\<lambda>t. Num (case None of None \<Rightarrow> tvalue t | Some f \<Rightarrow> f t)) ?ts
      = [Num 5, Num 3, Num 9]"
    by (simp_all add: sparse_study_def)
  from C5_missing_values_skipped [OF sparse_plot refl ne i(1) p(1) refl refl]
  have x: "dvalues (descriptors sparse_figure ! 1) = [Num 1, Num 2, Num 3]"
    unfolding rx by simp
  from C5_missing_values_skipped [OF sparse_plot refl ne i(2) p(2) refl refl]
  have "dvalues (descriptors sparse_figure ! Suc 1) = [Num 0, Num 1]"
    and t: "dvalues (descriptors sparse_figure ! 0) = [Num 5, Num 3, Num 9]"
    unfolding ry tg by (simp_all add: code_of_def)
  then have y: "dvalues (descriptors sparse_figure ! 2) = [Num 0, Num 1]"
    by (simp add: numeral_2_eq_2)
  from sparse_plot e x y t show ?thesis
    by (simp only: simp_thms)
qed

text \<open>
  Claim C6. When no trial of the study is complete (the study may have no trial at
  all), the call returns the figure without data, whose list of descriptors is empty;
  it raises nothing.
\<close>

theorem C6_no_completed_trials:
  assumes "complete_trials study = []"
  shows "get_parallel_coordinate_plot il ic lg pw fmt study ps target name =
           Inr \<lparr>data = [], layout_title = ''Parallel Coordinate Plot''\<rparr>
       \<and> descriptors \<lparr>data = [], layout_title = ''Parallel Coordinate Plot''\<rparr> = []"
  using assms by (simp add: get_parallel_coordinate_plot_def descriptors_def)

theorem C6_no_completed_trials_witness:
  "complete_trials unfinished_study = []
   \<and> get_parallel_coordinate_plot (\<lambda>ts p. p = ''x'') (\<lambda>ts p. False) example_log10 example_pow10 example_fmt3g
       unfinished_study None None ''Objective Value''
       = Inr \<lparr>data = [], layout_title = ''Parallel Coordinate Plot''\<rparr>
   \<and> get_parallel_coordinate_plot (\<lambda>ts p. p = ''x'') (\<lambda>ts p. False) example_log10 example_pow10 example_fmt3g
       \<lparr>trials = [], direction = NOT_SET\<rparr> None None ''Objective Value''
       = Inr \<lparr>data = [], layout_title = ''Parallel Coordinate Plot''\<rparr>"
proof -
  have e: "complete_trials unfinished_study = []"
    by (simp add: complete_trials_def unfinished_study_def)
  have e': "complete_trials \<lparr>trials = [], direction = NOT_SET\<rparr> = []"
    by (simp add: complete_trials_def)
  from C6_no_completed_trials [OF e] C6_no_completed_trials [OF e'] e show ?thesis
    by simp
qed

text \<open>
  Claim C7. In a figure the call returns, every descriptor that has tick positions has
  all of them within its range, ends included, and has as many tick texts as tick
  positions.
\<close>

theorem C7_ticks_consistent:
  assumes "get_parallel_coordinate_plot il ic lg pw fmt study ps target name = Inr fig"
    and "d \<in> set (descriptors fig)"
    and "tickvals d = Some tv"
  shows "list_all (within_range (drange d)) tv
       \<and> (\<exists>tt. ticktext d = Some tt \<and> length tt = length tv)"
proof (cases "complete_trials study = []")
  case True
  with assms(1,2) show ?thesis
    by (auto simp: get_parallel_coordinate_plot_def descriptors_def)
next
  case False
  from plot_descriptors [OF assms(1) False] obtain d0 ds where
    d: "descriptors fig = d0 # ds" and t: "tickvals d0 = None"
    and l: "list_all2 (\<lambda>p d. param_dim il ic lg pw fmt (complete_trials study) p = Inr d)
         (sorted_params (complete_trials study) ps) ds"
    by auto
  from d t assms(2,3) have "d \<in> set ds" by auto
  with l obtain p where "param_dim il ic lg pw fmt (complete_trials study) p = Inr d"
    by (auto simp: list_all2_conv_all_nth in_set_conv_nth)
  then show ?thesis using assms(3) by (rule param_dim_ticks)
qed

theorem C7_ticks_consistent_witness:
  "get_parallel_coordinate_plot (\<lambda>ts p. p = ''x'') (\<lambda>ts p. p = ''y'') example_log10 example_pow10 example_fmt3g
     example_study None None ''Objective Value'' = Inr example_figure
   \<and> tickvals (descriptors example_figure ! 1) = Some [Num 0, Num 1, Num 2]
   \<and> drange (descriptors example_figure ! 1) = (Num 0, Num 2)
   \<and> list_all (within_range (Num 0, Num 2)) [Num 0, Num 1, Num 2]
   \<and> ticktext (descriptors example_figure ! 1) = Some [Str ''1'', Str ''10'', Str ''100'']
   \<and> tickvals (descriptors example_figure ! 2) = Some [Num 0, Num 1]
   \<and> drange (descriptors example_figure ! 2) = (Num 0, Num 1)
   \<and> list_all (within_range (Num 0, Num 1)) [Num 0, Num 1]
   \<and> ticktext (descriptors example_figure ! 2) = Some [Str ''a'', Str ''b'']"
proof -
  have d1: "descriptors example_figure ! 1 \<in> set (descriptors example_figure)"
    and d2: "descriptors example_figure ! 2 \<in> set (descriptors example_figure)"
    by (simp_all add: descriptors_def example_figure_def)
  have t1: "tickvals (descriptors example_figure ! 1) = Some [Num 0, Num 1, Num 2]"
    and t2: "tickvals (descriptors example_figure ! 2) = Some [Num 0, Num 1]"
    by (simp_all add: descriptors_def example_figure_def)
  from C7_ticks_consistent [OF example_plot d1 t1] C7_ticks_consistent [OF example_plot d2 t2]
  show ?thesis
    by (simp add: example_plot descriptors_def example_figure_def)
qed

text \<open>
  Claim C8. The figure of a study with a completed trial has one trace, and its
  \<^verbatim>\<open>reversescale\<close> flag is true exactly when a target function is given, or none is
  given and the direction of the study is \<open>MINIMIZE\<close>.
\<close>

theorem C8_reversescale:
  assumes "get_parallel_coordinate_plot il ic lg pw fmt study ps target name = Inr fig"
    and "complete_trials study \<noteq> []"
  shows "\<exists>tr. data fig = [tr] \<and>
           (line_reversescale tr \<longleftrightarrow>
              target \<noteq> None \<or> (target = None \<and> direction study = MINIMIZE))"
proof -
  from plot_Inr [OF assms] obtain tr where "data fig = [tr]"
    and "line_reversescale tr = reversescale_of study target"
    by auto
  then show ?thesis
    by (auto simp: reversescale_of_def split: option.splits)
qed

theorem C8_reversescale_witness:
  "direction example_study = MINIMIZE
   \<and> get_parallel_coordinate_plot (\<lambda>ts p. p = ''x'') (\<lambda>ts p. p = ''y'') example_log10 example_pow10 example_fmt3g
       example_study None None ''Objective Value'' = Inr example_figure
   \<and> map line_reversescale (data example_figure) = [True]
   \<and> direction vocab_study = MAXIMIZE
   \<and> get_parallel_coordinate_plot (\<lambda>ts p. False) (\<lambda>ts p. p = ''y'') example_log10 example_pow10 example_fmt3g
       vocab_study None None ''Objective Value'' = Inr vocab_figure
   \<and> map line_reversescale (data vocab_figure) = [False]
   \<and> get_parallel_coordinate_plot (\<lambda>ts p. False) (\<lambda>ts p. p = ''y'') example_log10 example_pow10 example_fmt3g
       vocab_study None (Some (\<lambda>t. - tvalue t)) ''Loss'' = Inr custom_target_figure
   \<and> map line_reversescale (data custom_target_figure) = [True]"
proof -
  have ne: "complete_trials example_study \<noteq> []" and nv: "complete_trials vocab_study \<noteq> []"
    by (simp_all add: complete_trials_def example_study_def vocab_study_def)
  have d: "direction example_study = MINIMIZE" "direction vocab_study = MAXIMIZE"
    by (simp_all add: example_study_def vocab_study_def)
  from C8_reversescale [OF example_plot ne] C8_reversescale [OF vocab_plot nv]
    C8_reversescale [OF custom_target_plot nv]
  have "map line_reversescale (data example_figure) = [True]"
    and "map line_reversescale (data vocab_figure) = [False]"
    and "map line_reversescale (data custom_target_figure) = [True]"
    by (auto simp: d)
  with d example_plot vocab_plot custom_target_plot show ?thesis
    by (simp only: simp_thms)
qed

text \<open>
  Claim C9. The label of the axis of a parameter is the name itself when the name has
  fewer than 20 characters, and its first 17 characters followed by three dots when it
  has 20 characters or more.
\<close>

theorem C9_label_truncation:
  assumes "get_parallel_coordinate_plot il ic lg pw fmt study ps target name = Inr fig"
    and "complete_trials study \<noteq> []"
    and "i < length (sorted_params (complete_trials study) ps)"
    and "p = sorted_params (complete_trials study) ps ! i"
  shows "(length p < 20 \<longrightarrow> label (descriptors fig ! Suc i) = p)
       \<and> (20 \<le> length p \<longrightarrow> label (descriptors fig ! Suc i) = take 17 p @ ''...'')"
proof -
  from plot_param_dim(1) [OF assms(1,2,3)] assms(4)
  have "label (descriptors fig ! Suc i) = dim_label p"
    by (simp add: dim_label_param_dim)
  then show ?thesis
    by (simp add: dim_label_def)
qed

theorem C9_label_truncation_witness:
  "get_parallel_coordinate_plot (\<lambda>ts p. False) (\<lambda>ts p. False) example_log10 example_pow10 example_fmt3g
     long_name_study None None ''Objective Value'' = Inr long_name_figure
   \<and> sorted_params (complete_trials long_name_study) None =
       [''exactly_twenty_chars'', ''nineteen_characters'', ''this_is_a_very_long_parameter_name'']
   \<and> length ''exactly_twenty_chars'' = 20
   \<and> label (descriptors long_name_figure ! 1) = ''exactly_twenty_ch...''
   \<and> length ''nineteen_characters'' = 19
   \<and> label (descriptors long_name_figure ! 2) = ''nineteen_characters''
   \<and> length ''this_is_a_very_long_parameter_name'' = 34
   \<and> label (descriptors long_name_figure ! 3) = ''this_is_a_very_lo...''"
proof -
  have ne: "complete_trials long_name_study \<noteq> []"
    by (simp add: complete_trials_def long_name_study_def)
  have i: "0 < length (sorted_params (complete_trials long_name_study) None)"
      "1 < length (sorted_params (complete_trials long_name_study) None)"
      "2 < length (sorted_params (complete_trials long_name_study) None)"
    by (simp_all add: long_name_sorted_params)
  from C9_label_truncation [OF long_name_plot ne i(1) refl]
    C9_label_truncation [OF long_name_plot ne i(2) refl]
    C9_label_truncation [OF long_name_plot ne i(3) refl]
  show ?thesis
    by (simp add: long_name_plot long_name_sorted_params numeral_2_eq_2 numeral_3_eq_3)
qed

text \<open>
  Claim C10. When no trial of the study is complete, the figure without data is returned
  also for an explicit list of names with a name that no trial of the study has: the
  names are not checked, and no \<^verbatim>\<open>ValueError\<close> for an unknown parameter is raised.
\<close>

theorem C10_empty_before_validation:
  assumes "complete_trials study = []"
    and "q \<in> set l"
    and "\<forall>t\<in>set (trials study). map_of (params t) q = None"
  shows "get_parallel_coordinate_plot il ic lg pw fmt study (Some l) target name =
           Inr \<lparr>data = [], layout_title = ''Parallel Coordinate Plot''\<rparr>
       \<and> get_parallel_coordinate_plot il ic lg pw fmt study (Some l) target name
           \<noteq> Inl (ValueError (''Parameter '' @ q @ '' does not exist in your study.''))"
  using assms(1) by (simp add: get_parallel_coordinate_plot_def)

theorem C10_empty_before_validation_witness:
  "complete_trials unfinished_study = []
   \<and> get_parallel_coordinate_plot (\<lambda>ts p. p = ''x'') (\<lambda>ts p. False) example_log10 example_pow10 example_fmt3g
       unfinished_study (Some [''x'', ''nowhere'']) None ''Objective Value''
       = Inr \<lparr>data = [], layout_title = ''Parallel Coordinate Plot''\<rparr>"
proof -
  have e: "complete_trials unfinished_study = []"
    by (simp add: complete_trials_def unfinished_study_def)
  have q: "''nowhere'' \<in> set [''x'', ''nowhere'']"
    by simp
  have n: "\<forall>t\<in>set (trials unfinished_study). map_of (params t) ''nowhere'' = None"
    by (simp add: unfinished_study_def)
  from C10_empty_before_validation [OF e q n] e show ?thesis
    by simp
qed

end
